theory Spec2Isabelle
  imports Main "HOL-Library.Word" "HOL-Library.Char_ord" "HOL-Library.List_Lexorder"
begin

unbundle bit_operations_syntax

section \<open>The platform: bytes, hashlib.md5 and hashlib.shake_128\<close>

text \<open>
  \<^verbatim>\<open>util.py\<close> feeds \<^verbatim>\<open>repr(s).encode('utf-8')\<close> to a \<^verbatim>\<open>hashlib\<close> object and reads
  \<^verbatim>\<open>hexdigest()\<close>. The library is not part of the repository; it is modelled here
  by the algorithms it implements (MD5 of RFC 1321, SHAKE128 of FIPS 202), on lists of
  bytes. A hash object is the list of the bytes fed so far: \<^verbatim>\<open>m.update(a); m.update(b)\<close>
  is \<^verbatim>\<open>m.update(a + b)\<close>.
\<close>

type_synonym bytes = "8 word list"

definition hexchars :: string where
  "hexchars = ''0123456789abcdef''"

definition hex_byte :: "8 word \<Rightarrow> string" where
  "hex_byte b = [hexchars ! (unat b div 16), hexchars ! (unat b mod 16)]"

definition hex_bytes :: "bytes \<Rightarrow> string" where
  "hex_bytes bs = concat (map hex_byte bs)"

subsection \<open>MD5\<close>

definition md5_K :: "32 word list" where
  "md5_K = [
    0xd76aa478, 0xe8c7b756, 0x242070db, 0xc1bdceee, 0xf57c0faf, 0x4787c62a, 0xa8304613, 0xfd469501,
    0x698098d8, 0x8b44f7af, 0xffff5bb1, 0x895cd7be, 0x6b901122, 0xfd987193, 0xa679438e, 0x49b40821,
    0xf61e2562, 0xc040b340, 0x265e5a51, 0xe9b6c7aa, 0xd62f105d, 0x02441453, 0xd8a1e681, 0xe7d3fbc8,
    0x21e1cde6, 0xc33707d6, 0xf4d50d87, 0x455a14ed, 0xa9e3e905, 0xfcefa3f8, 0x676f02d9, 0x8d2a4c8a,
    0xfffa3942, 0x8771f681, 0x6d9d6122, 0xfde5380c, 0xa4beea44, 0x4bdecfa9, 0xf6bb4b60, 0xbebfbc70,
    0x289b7ec6, 0xeaa127fa, 0xd4ef3085, 0x04881d05, 0xd9d4d039, 0xe6db99e5, 0x1fa27cf8, 0xc4ac5665,
    0xf4292244, 0x432aff97, 0xab9423a7, 0xfc93a039, 0x655b59c3, 0x8f0ccc92, 0xffeff47d, 0x85845dd1,
    0x6fa87e4f, 0xfe2ce6e0, 0xa3014314, 0x4e0811a1, 0xf7537e82, 0xbd3af235, 0x2ad7d2bb, 0xeb86d391]"

definition md5_s :: "nat list" where
  "md5_s = [
    7, 12, 17, 22, 7, 12, 17, 22, 7, 12, 17, 22, 7, 12, 17, 22,
    5, 9, 14, 20, 5, 9, 14, 20, 5, 9, 14, 20, 5, 9, 14, 20,
    4, 11, 16, 23, 4, 11, 16, 23, 4, 11, 16, 23, 4, 11, 16, 23,
    6, 10, 15, 21, 6, 10, 15, 21, 6, 10, 15, 21, 6, 10, 15, 21]"

text \<open>The first \<open>n\<close> little-endian bytes of a word, and the word of little-endian bytes.\<close>

fun le_bytes :: "nat \<Rightarrow> 'a::len word \<Rightarrow> bytes" where
  "le_bytes 0 w = []"
| "le_bytes (Suc n) w = ucast w # le_bytes n (drop_bit 8 w)"

fun le_word :: "bytes \<Rightarrow> 'a::len word" where
  "le_word [] = 0"
| "le_word (b # bs) = ucast b OR push_bit 8 (le_word bs)"

fun chunks :: "nat \<Rightarrow> nat \<Rightarrow> 'a list \<Rightarrow> 'a list list" where
  "chunks 0 n xs = []"
| "chunks (Suc k) n xs = take n xs # chunks k n (drop n xs)"

definition md5_pad :: "bytes \<Rightarrow> bytes" where
  "md5_pad bs =
     bs @ [0x80] @ replicate ((119 - length bs mod 64) mod 64) 0 @
     le_bytes 8 (of_nat (8 * length bs) :: 64 word)"

definition md5_blocks :: "bytes \<Rightarrow> 32 word list list" where
  "md5_blocks bs =
     (let p = md5_pad bs in
      map (\<lambda>blk. map le_word (chunks 16 4 blk)) (chunks (length p div 64) 64 p))"

type_synonym md5_state = "32 word \<times> 32 word \<times> 32 word \<times> 32 word"

definition md5_step :: "32 word list \<Rightarrow> md5_state \<Rightarrow> nat \<Rightarrow> md5_state" where
  "md5_step M st i =
     (case st of (A, B, C, D) \<Rightarrow>
        let (F, g) =
              (if i < 16 then ((B AND C) OR (NOT B AND D), i)
               else if i < 32 then ((D AND B) OR (NOT D AND C), (5 * i + 1) mod 16)
               else if i < 48 then (B XOR C XOR D, (3 * i + 5) mod 16)
               else (C XOR (B OR NOT D), (7 * i) mod 16));
            F' = F + A + md5_K ! i + M ! g
        in (D, B + word_rotl (md5_s ! i) F', B, C))"

definition md5_block :: "md5_state \<Rightarrow> 32 word list \<Rightarrow> md5_state" where
  "md5_block st M =
     (case st of (a0, b0, c0, d0) \<Rightarrow>
        case foldl (md5_step M) st [0..<64] of (A, B, C, D) \<Rightarrow>
          (a0 + A, b0 + B, c0 + C, d0 + D))"

definition md5_digest :: "bytes \<Rightarrow> bytes" where
  "md5_digest bs =
     (case foldl md5_block (0x67452301, 0xefcdab89, 0x98badcfe, 0x10325476) (md5_blocks bs) of
        (A, B, C, D) \<Rightarrow> concat (map (\<lambda>w. le_bytes 4 w) [A, B, C, D]))"

definition md5_hexdigest :: "bytes \<Rightarrow> string" where
  "md5_hexdigest bs = hex_bytes (md5_digest bs)"

subsection \<open>SHAKE128\<close>

definition keccak_RC :: "64 word list" where
  "keccak_RC = [
    0x0000000000000001, 0x0000000000008082, 0x800000000000808a, 0x8000000080008000,
    0x000000000000808b, 0x0000000080000001, 0x8000000080008081, 0x8000000000008009,
    0x000000000000008a, 0x0000000000000088, 0x0000000080008009, 0x000000008000000a,
    0x000000008000808b, 0x800000000000008b, 0x8000000000008089, 0x8000000000008003,
    0x8000000000008002, 0x8000000000000080, 0x000000000000800a, 0x800000008000000a,
    0x8000000080008081, 0x8000000000008080, 0x0000000080000001, 0x8000000080008008]"

text \<open>Rotation offsets, indexed by the lane number \<open>x + 5 * y\<close>.\<close>

definition keccak_rot :: "nat list" where
  "keccak_rot = [0, 1, 62, 28, 27, 36, 44, 6, 55, 20, 3, 10, 43, 25, 39, 41, 45, 15, 21, 8,
                 18, 2, 61, 56, 14]"

type_synonym keccak_state = "64 word list"

definition keccak_theta :: "keccak_state \<Rightarrow> keccak_state" where
  "keccak_theta A =
     (let C = map (\<lambda>x. A ! x XOR A ! (x + 5) XOR A ! (x + 10) XOR A ! (x + 15) XOR A ! (x + 20))
                [0..<5];
          D = map (\<lambda>x. C ! ((x + 4) mod 5) XOR word_rotl 1 (C ! ((x + 1) mod 5))) [0..<5]
      in map (\<lambda>i. A ! i XOR D ! (i mod 5)) [0..<25])"

text \<open>
  \<open>rho\<close> and \<open>pi\<close>: the lane \<open>(x, y)\<close>, rotated, moves to \<open>(y, 2 * x + 3 * y)\<close>; read
  backwards, the lane at \<open>(X, Y)\<close> comes from \<open>x = (X + 3 * Y) mod 5\<close>, \<open>y = X\<close>.
\<close>

definition keccak_rho_pi :: "keccak_state \<Rightarrow> keccak_state" where
  "keccak_rho_pi A =
     map (\<lambda>i. let X = i mod 5; Y = i div 5; src = (X + 3 * Y) mod 5 + 5 * X
               in word_rotl (keccak_rot ! src) (A ! src)) [0..<25]"

definition keccak_chi :: "keccak_state \<Rightarrow> keccak_state" where
  "keccak_chi B =
     map (\<lambda>i. let x = i mod 5; y = i div 5
               in B ! i XOR (NOT (B ! ((x + 1) mod 5 + 5 * y)) AND B ! ((x + 2) mod 5 + 5 * y)))
         [0..<25]"

definition keccak_round :: "keccak_state \<Rightarrow> nat \<Rightarrow> keccak_state" where
  "keccak_round A r =
     (let E = keccak_chi (keccak_rho_pi (keccak_theta A)) in E[0 := E ! 0 XOR keccak_RC ! r])"

definition keccak_f :: "keccak_state \<Rightarrow> keccak_state" where
  "keccak_f A = foldl keccak_round A [0..<24]"

definition shake_rate :: nat where
  "shake_rate = 168"

definition shake_pad :: "bytes \<Rightarrow> bytes" where
  "shake_pad bs =
     (let k = shake_rate - length bs mod shake_rate
      in if k = 1 then bs @ [0x9F] else bs @ [0x1F] @ replicate (k - 2) 0 @ [0x80])"

definition keccak_absorb :: "keccak_state \<Rightarrow> bytes \<Rightarrow> keccak_state" where
  "keccak_absorb A blk =
     keccak_f (map (\<lambda>i. A ! i XOR le_word (take 8 (drop (8 * i) blk))) [0..<25])"

definition keccak_out :: "keccak_state \<Rightarrow> bytes" where
  "keccak_out A = take shake_rate (concat (map (\<lambda>w. le_bytes 8 w) A))"

fun keccak_squeeze :: "nat \<Rightarrow> keccak_state \<Rightarrow> bytes" where
  "keccak_squeeze 0 A = []"
| "keccak_squeeze (Suc k) A = keccak_out A @ keccak_squeeze k (keccak_f A)"

definition shake_128_digest :: "bytes \<Rightarrow> nat \<Rightarrow> bytes" where
  "shake_128_digest bs n =
     (let p = shake_pad bs;
          A = foldl keccak_absorb (replicate 25 0) (chunks (length p div shake_rate) shake_rate p)
      in take n (keccak_squeeze (Suc (n div shake_rate)) A))"

definition shake_128_hexdigest :: "bytes \<Rightarrow> nat \<Rightarrow> string" where
  "shake_128_hexdigest bs n = hex_bytes (shake_128_digest bs n)"

section \<open>Python values and the built-ins the hasher calls\<close>

text \<open>
  A Python \<^verbatim>\<open>str\<close> is a \<^typ>\<open>string\<close>: the model covers the code points below 256.
  The values the hasher distinguishes:
  \<^item> \<open>PNone\<close>;
  \<^item> \<open>PFunc lam src\<close>, a function in the sense of \<^verbatim>\<open>isFunction\<close>: \<open>src\<close> is the list
    of lines \<^verbatim>\<open>inspect.getsourcelines\<close> returns for it, \<open>lam\<close> says whether it is an
    instance of \<^verbatim>\<open>types.LambdaType\<close> (every plain function and lambda is);
  \<^item> \<open>PProperty\<close>, a \<^verbatim>\<open>property\<close> object (\<^verbatim>\<open>inspect\<close> has no source for it);
  \<^item> \<open>PStr\<close>, \<open>PInt\<close>, \<open>PBool\<close>: the atoms whose \<^verbatim>\<open>repr\<close> is computed here;
  \<^item> \<open>PRepr r\<close>: any other value the hasher feeds by its \<^verbatim>\<open>repr\<close> (a float, a
    \<^verbatim>\<open>datetime\<close> value, a numpy scalar or array, a pandas frame), given by that text \<open>r\<close>;
  \<^item> \<open>PDict\<close>: a \<^verbatim>\<open>Mapping\<close>, as the list of its items in insertion order; the keys
    covered are strings and integers;
  \<^item> \<open>PColl\<close>: any other \<^verbatim>\<open>Collection\<close> (list, tuple, set), as the list of its
    elements in iteration order;
  \<^item> \<open>PObject d\<close>: an object that is none of the above and has the \<^verbatim>\<open>__dict__\<close> \<open>d\<close>;
  \<^item> \<open>POpaque\<close>: an object that is none of the above and has no \<^verbatim>\<open>__dict__\<close>.
\<close>

datatype pykey = KStr string | KInt int

datatype pyval =
    PNone
  | PFunc bool "string list"
  | PProperty
  | PStr string
  | PInt int
  | PBool bool
  | PRepr string
  | PDict "(pykey \<times> pyval) list"
  | PColl "pyval list"
  | PObject "(pykey \<times> pyval) list"
  | POpaque

datatype error =
    TypeError_cannot_handle       \<comment> \<open>\<^verbatim>\<open>raise TypeError(fmt("Cannot handle type %s", type(inn)))\<close>\<close>
  | TypeError_not_subscriptable   \<comment> \<open>\<^verbatim>\<open>k[:1]\<close> on an \<^verbatim>\<open>int\<close>\<close>
  | TypeError_not_orderable       \<comment> \<open>\<^verbatim>\<open>sorted\<close> comparing an \<^verbatim>\<open>int\<close> with a \<^verbatim>\<open>str\<close>\<close>
  | TypeError_no_source           \<comment> \<open>\<^verbatim>\<open>inspect.getsourcelines\<close> on a \<^verbatim>\<open>property\<close>\<close>
  | AssertionError string
  | NegativeLengthError           \<comment> \<open>\<^verbatim>\<open>hexdigest\<close> of a negative length: \<^verbatim>\<open>ValueError\<close> or
                                      \<^verbatim>\<open>MemoryError\<close>, depending on the build of \<^verbatim>\<open>hashlib\<close>\<close>
  | KeyError string
  | AttributeError string
  | VerifyError string            \<comment> \<open>a failed \<^verbatim>\<open>_log.verify\<close>\<close>
  | Exceptn string                \<comment> \<open>the statement \<^verbatim>\<open>raise _log.Exceptn(...)\<close>, which ends in an
                                      exception of the logger or of the formatting of its text\<close>
  | IsADirectoryError string      \<comment> \<open>\<^verbatim>\<open>open\<close> or \<^verbatim>\<open>os.remove\<close> on a directory\<close>
  | FileNotFoundError string     \<comment> \<open>\<^verbatim>\<open>open\<close> or \<^verbatim>\<open>os.remove\<close> on a missing file\<close>
  | EOFError                      \<comment> \<open>\<^verbatim>\<open>pickle.load\<close> on a file that ends too early\<close>
  | UnpicklingError               \<comment> \<open>\<^verbatim>\<open>pickle.load\<close> failing in any other way\<close>
  | PicklingError                 \<comment> \<open>\<^verbatim>\<open>pickle.dump\<close> on a value that cannot be pickled\<close>
  | NestedKey string              \<comment> \<open>a key with a directory part: see \<open>SubDir_read\<close>\<close>

subsection \<open>str.lower, str.find, repr, encode\<close>

definition lower_char :: "char \<Rightarrow> char" where
  "lower_char c =
     (let n = of_char c :: nat
      in if (65 \<le> n \<and> n \<le> 90) \<or> (192 \<le> n \<and> n \<le> 222 \<and> n \<noteq> 215) then char_of (n + 32) else c)"

definition lower :: "string \<Rightarrow> string" where
  "lower s = map lower_char s"

text \<open>\<^verbatim>\<open>s.find(sub)\<close>: the first index where \<open>sub\<close> starts in \<open>s\<close>, or \<open>-1\<close>.\<close>

fun find :: "string \<Rightarrow> string \<Rightarrow> int" where
  "find [] sub = (if sub = [] then 0 else - 1)"
| "find (c # cs) sub =
     (if take (length sub) (c # cs) = sub then 0
      else let r = find cs sub in if r < 0 then - 1 else r + 1)"

definition hexdigit :: "nat \<Rightarrow> char" where
  "hexdigit n = hexchars ! n"

text \<open>
  \<^verbatim>\<open>repr\<close> of a \<^verbatim>\<open>str\<close>: double quotes when the text has a single quote and no double
  quote, single quotes otherwise; the quote and the backslash are escaped, tab, newline and
  return are written \<^verbatim>\<open>\t\<close>, \<^verbatim>\<open>\n\<close>, \<^verbatim>\<open>\r\<close>, and every other non-printable code point
  as \<^verbatim>\<open>\xhh\<close>.
\<close>

definition repr_char :: "char \<Rightarrow> char \<Rightarrow> string" where
  "repr_char q c =
     (let n = of_char c :: nat
      in if c = q \<or> n = 92 then [CHR 0x5C, c]
         else if n = 9 then [CHR 0x5C, CHR ''t'']
         else if n = 10 then [CHR 0x5C, CHR ''n'']
         else if n = 13 then [CHR 0x5C, CHR ''r'']
         else if n < 32 \<or> n = 127 \<or> (128 \<le> n \<and> n \<le> 160) \<or> n = 173
           then [CHR 0x5C, CHR ''x'', hexdigit (n div 16), hexdigit (n mod 16)]
         else [c])"

definition repr_str :: "string \<Rightarrow> string" where
  "repr_str s =
     (let q = (if CHR 0x27 \<in> set s \<and> CHR 0x22 \<notin> set s then CHR 0x22 else CHR 0x27)
      in [q] @ concat (map (repr_char q) s) @ [q])"

fun digits :: "nat \<Rightarrow> string" where
  "digits n = (if n < 10 then [hexdigit n] else digits (n div 10) @ [hexdigit (n mod 10)])"

declare digits.simps [simp del]

definition repr_int :: "int \<Rightarrow> string" where
  "repr_int i = (if i < 0 then CHR ''-'' # digits (nat (- i)) else digits (nat i))"

definition repr_bool :: "bool \<Rightarrow> string" where
  "repr_bool b = (if b then ''True'' else ''False'')"

fun join :: "string \<Rightarrow> string list \<Rightarrow> string" where
  "join sep [] = []"
| "join sep [x] = x"
| "join sep (x # y # ys) = x @ sep @ join sep (y # ys)"

definition repr_list :: "string list \<Rightarrow> string" where
  "repr_list xs = ''['' @ join '', '' (map repr_str xs) @ '']''"

definition repr_key :: "pykey \<Rightarrow> string" where
  "repr_key k = (case k of KStr s \<Rightarrow> repr_str s | KInt i \<Rightarrow> repr_int i)"

text \<open>\<^verbatim>\<open>s.encode('utf-8')\<close>, on code points below 256.\<close>

definition encode_char :: "char \<Rightarrow> bytes" where
  "encode_char c =
     (let n = of_char c :: nat
      in if n < 128 then [of_nat n] else [of_nat (192 + n div 64), of_nat (128 + n mod 64)])"

definition encode :: "string \<Rightarrow> bytes" where
  "encode s = concat (map encode_char s)"

subsection \<open>sorted, on the keys of a mapping\<close>

text \<open>
  Strings are ordered by code points, integers by value; \<^verbatim>\<open>sorted\<close> on a list that holds
  both has to compare an integer with a string, which raises \<^verbatim>\<open>TypeError\<close>.
\<close>

fun is_KStr :: "pykey \<Rightarrow> bool" where
  "is_KStr (KStr s) = True"
| "is_KStr (KInt i) = False"

fun str_of :: "pykey \<Rightarrow> string" where
  "str_of (KStr s) = s"
| "str_of (KInt i) = []"

fun int_of :: "pykey \<Rightarrow> int" where
  "int_of (KInt i) = i"
| "int_of (KStr s) = 0"

definition sorted_keys :: "pykey list \<Rightarrow> error + pykey list" where
  "sorted_keys ks =
     (if list_all is_KStr ks then Inr (map KStr (sort (map str_of ks)))
      else if list_all (\<lambda>k. \<not> is_KStr k) ks then Inr (map KInt (sort (map int_of ks)))
      else Inl TypeError_not_orderable)"

section \<open>The canonical hasher (util.py)\<close>

text \<open>
  \<^verbatim>\<open>_compress_function_code\<close>: the source lines of a function; for an instance of
  \<^verbatim>\<open>types.LambdaType\<close> the first line is cut after the first \<^verbatim>\<open>"lambda "\<close> (when
  \<^verbatim>\<open>find\<close> returns \<open>-1\<close> the slice starts at index \<open>6\<close>); then tabs, blanks and newlines
  are removed from every line.
\<close>

definition compress_function_code :: "bool \<Rightarrow> string list \<Rightarrow> error + string list" where
  "compress_function_code lam src =
     (let strip = filter (\<lambda>c. c \<noteq> CHR 0x09 \<and> c \<noteq> CHR '' '' \<and> c \<noteq> CHR 0x0A)
      in if lam then
           (case src of
              [] \<Rightarrow> Inl (AssertionError ''No source code ??'')
            | l # ls \<Rightarrow>
                let i = find (lower l) ''lambda ''
                in Inr (map strip (drop (nat (i + 7)) l # ls)))
         else Inr (map strip src))"

text \<open>\<^verbatim>\<open>update(s)\<close>: feed \<^verbatim>\<open>repr(s).encode('utf-8')\<close>; the argument here is the text of \<^verbatim>\<open>repr(s)\<close>.\<close>

definition update :: "string \<Rightarrow> bytes \<Rightarrow> bytes" where
  "update r m = m @ encode r"

definition skipped :: "pyval \<Rightarrow> bool" where
  "skipped k = (case k of PStr s \<Rightarrow> take 1 s = ''_'' | _ \<Rightarrow> False)"

text \<open>The test \<^verbatim>\<open>k[:1] == '_'\<close> of the mapping loop, negated: the key is not skipped.\<close>

definition public :: "string \<Rightarrow> bool" where
  "public k = (take 1 k \<noteq> ''_'')"

text \<open>
  \<^verbatim>\<open>visit(inn)\<close>, with the hash object passed along. \<open>visit_keys d ks\<close> is the loop over
  the sorted keys \<open>ks\<close> of the mapping \<open>d\<close>, \<open>visit_elems\<close> the loop over a collection.
\<close>

lemma map_of_size:
  "map_of d k = Some v \<Longrightarrow> size v < size_list (size_prod (\<lambda>_. 0) size) d"
  by (induction d) (auto split: if_splits)

function visit :: "bool \<Rightarrow> pyval \<Rightarrow> bytes \<Rightarrow> error + bytes"
  and visit_keys :: "bool \<Rightarrow> (pykey \<times> pyval) list \<Rightarrow> pykey list \<Rightarrow> bytes \<Rightarrow> error + bytes"
  and visit_elems :: "bool \<Rightarrow> pyval list \<Rightarrow> bytes \<Rightarrow> error + bytes" where
  "visit pf PNone m = Inr m"
| "visit pf (PFunc lam src) m =
     (if pf then
        (case compress_function_code lam src of
           Inl e \<Rightarrow> Inl e
         | Inr code \<Rightarrow> Inr (update (repr_list code) m))
      else Inr m)"
| "visit pf PProperty m = (if pf then Inl TypeError_no_source else Inr m)"
| "visit pf (PStr s) m = Inr (update (repr_str s) m)"
| "visit pf (PInt i) m = Inr (update (repr_int i) m)"
| "visit pf (PBool b) m = Inr (update (repr_bool b) m)"
| "visit pf (PRepr r) m = Inr (update r m)"
| "visit pf (PDict d) m =
     (case sorted_keys (map fst d) of
        Inl e \<Rightarrow> Inl e
      | Inr ks \<Rightarrow> visit_keys pf d ks m)"
| "visit pf (PColl xs) m = visit_elems pf xs m"
| "visit pf (PObject d) m = visit pf (PDict d) m"
| "visit pf POpaque m = Inl TypeError_cannot_handle"
| "visit_keys pf d [] m = Inr m"
| "visit_keys pf d (k # ks) m =
     (case k of
        KInt i \<Rightarrow> Inl TypeError_not_subscriptable
      | KStr s \<Rightarrow>
          if take 1 s = ''_'' then visit_keys pf d ks m
          else (case map_of d k of
                  None \<Rightarrow> Inl (KeyError s)
                | Some v \<Rightarrow>
                    (case visit pf v (update (repr_key k) m) of
                       Inl e \<Rightarrow> Inl e
                     | Inr m' \<Rightarrow> visit_keys pf d ks m')))"
| "visit_elems pf [] m = Inr m"
| "visit_elems pf (k # ks) m =
     (if skipped k then visit_elems pf ks m
      else (case visit pf k m of
              Inl e \<Rightarrow> Inl e
            | Inr m' \<Rightarrow> visit_elems pf ks m'))"
  by pat_completeness auto

termination visit
proof (relation "inv_image (less_than <*lex*> less_than)
    (\<lambda>a. case a of
       Inl (pf, v, m) \<Rightarrow> (2 * size v + (case v of PObject d \<Rightarrow> 1 | _ \<Rightarrow> 0), 0)
     | Inr (Inl (pf, d, ks, m)) \<Rightarrow> (2 * size (PDict d) - 1, length ks)
     | Inr (Inr (pf, xs, m)) \<Rightarrow> (2 * size (PColl xs) - 1, length xs))", goal_cases)
  case 1
  show ?case by (intro wf_inv_image wf_lex_prod wf_less_than)
qed (auto dest!: map_of_size split: pyval.splits)

text \<open>
  \<^verbatim>\<open>uniqueHashExt(length, parse_functions)(*args, **kwargs)\<close>. The keyword arguments
  are a dictionary with string keys; \<open>len\<close> is the argument \<^verbatim>\<open>length\<close>, \<open>None\<close> or an
  integer.
\<close>

definition kwargs_dict :: "(string \<times> pyval) list \<Rightarrow> pyval" where
  "kwargs_dict kwargs = PDict (map (\<lambda>(k, v). (KStr k, v)) kwargs)"

definition uniqueHashExt ::
  "int option \<Rightarrow> bool \<Rightarrow> pyval list \<Rightarrow> (string \<times> pyval) list \<Rightarrow> error + string" where
  "uniqueHashExt len parse_functions args kwargs =
     (case visit parse_functions (PColl args) [] of
        Inl e \<Rightarrow> Inl e
      | Inr m \<Rightarrow>
          (case visit parse_functions (kwargs_dict kwargs) m of
             Inl e \<Rightarrow> Inl e
           | Inr m' \<Rightarrow>
               (case len of
                  None \<Rightarrow> Inr (md5_hexdigest m')
                | Some n \<Rightarrow>
                    if n div 2 < 0 then Inl NegativeLengthError
                    else Inr (shake_128_hexdigest m' (nat (n div 2))))))"

definition uniqueHash :: "pyval list \<Rightarrow> (string \<times> pyval) list \<Rightarrow> error + string" where
  "uniqueHash args kwargs = uniqueHashExt None False args kwargs"

definition uniqueHash32 :: "pyval list \<Rightarrow> (string \<times> pyval) list \<Rightarrow> error + string" where
  "uniqueHash32 args argv = uniqueHashExt (Some 32) False args argv"

definition uniqueHash48 :: "pyval list \<Rightarrow> (string \<times> pyval) list \<Rightarrow> error + string" where
  "uniqueHash48 args argv = uniqueHashExt (Some 48) False args argv"

definition uniqueHash64 :: "pyval list \<Rightarrow> (string \<times> pyval) list \<Rightarrow> error + string" where
  "uniqueHash64 args argv = uniqueHashExt (Some 64) False args argv"

section \<open>The cache mode policy (util.py, class CacheMode)\<close>

definition ON :: string where "ON = ''on''"
definition GEN :: string where "GEN = ''gen''"
definition OFF :: string where "OFF = ''off''"
definition UPDATE :: string where "UPDATE = ''update''"
definition CLEAR :: string where "CLEAR = ''clear''"
definition READONLY :: string where "READONLY = ''readonly''"

definition MODES :: "string list" where
  "MODES = [ON, GEN, OFF, UPDATE, CLEAR, READONLY]"

text \<open>
  The fields \<^verbatim>\<open>mode\<close>, \<^verbatim>\<open>_read\<close>, \<^verbatim>\<open>_write\<close>, \<^verbatim>\<open>_delete\<close>, \<^verbatim>\<open>_del_in\<close>; the properties
  \<^verbatim>\<open>read\<close>, \<^verbatim>\<open>write\<close>, \<^verbatim>\<open>delete\<close> and \<^verbatim>\<open>del_incomp\<close> return the last four.
\<close>

record CacheMode =
  mode :: string
  cm_read :: bool
  cm_write :: bool
  cm_delete :: bool
  cm_del_in :: bool

text \<open>
  The argument of the constructor: \<^verbatim>\<open>None\<close>, a \<^verbatim>\<open>CacheMode\<close>, or anything else, given by
  the text \<^verbatim>\<open>str(mode)\<close>.
\<close>

datatype mode_arg = MNone | MMode CacheMode | MStr string

definition CacheMode_init :: "mode_arg \<Rightarrow> error + CacheMode" where
  "CacheMode_init arg =
     (let arg' = (case arg of MNone \<Rightarrow> MStr ON | _ \<Rightarrow> arg);
          md = (case arg' of MMode c \<Rightarrow> mode c | MStr s \<Rightarrow> s | MNone \<Rightarrow> ON)
      in if md \<notin> set MODES then Inl (KeyError md)
         else Inr \<lparr> mode = md,
                    cm_read = (md \<in> set [ON, READONLY, GEN]),
                    cm_write = (md \<in> set [ON, UPDATE, GEN]),
                    cm_delete = (md \<in> set [UPDATE, CLEAR]),
                    cm_del_in = (md \<in> set [UPDATE, CLEAR, ON]) \<rparr>)"

definition is_off :: "CacheMode \<Rightarrow> bool" where "is_off c = (mode c = OFF)"
definition is_on :: "CacheMode \<Rightarrow> bool" where "is_on c = (mode c = ON)"
definition is_gen :: "CacheMode \<Rightarrow> bool" where "is_gen c = (mode c = GEN)"
definition is_update :: "CacheMode \<Rightarrow> bool" where "is_update c = (mode c = UPDATE)"
definition is_clear :: "CacheMode \<Rightarrow> bool" where "is_clear c = (mode c = CLEAR)"
definition is_readonly :: "CacheMode \<Rightarrow> bool" where "is_readonly c = (mode c = READONLY)"

section \<open>The store (subdir.py, class SubDir)\<close>

text \<open>
  A \<^verbatim>\<open>SubDir\<close> is its \<^verbatim>\<open>path\<close> (ending in \<^verbatim>\<open>/\<close>) and its extension \<^verbatim>\<open>ext\<close>. The file
  system maps a full file name to what is there: a regular file or a directory. A file
  written by \<^verbatim>\<open>pickle.dump\<close> holds the pickled value and \<^verbatim>\<open>pickle.load\<close> gives it back;
  \<open>Truncated\<close> is a file on which \<^verbatim>\<open>pickle.load\<close> raises \<^verbatim>\<open>EOFError\<close>, \<open>Garbled\<close> one on
  which it fails in another way. The directory of the \<^verbatim>\<open>SubDir\<close> exists (its constructor
  made it).

  \<^verbatim>\<open>pickle.dump(obj, f, -1)\<close> on the file just opened for writing either pickles the value
  or raises and leaves the file with what had been written, an empty file in the usual
  case. Whether a value can be pickled is not a matter of its shape alone (a function
  defined at the top of a module can, a lambda cannot), so the outcome is a parameter
  \<open>dump\<close> of the functions that write.
\<close>

record SubDir =
  path :: string
  ext :: string

datatype content = Pickled pyval | Truncated | Garbled

datatype node = File content | Dir

datatype dump_outcome = Dumped | Dump_raises content

datatype warning =
    Cannot_read_file_deleted string string
  | Cannot_read_delete_failed string string

text \<open>\<open>calls\<close> counts the executions of the body of the wrapped function.\<close>

record world =
  fs :: "string \<Rightarrow> node option"
  warnings :: "warning list"
  calls :: nat

definition fullKeyName :: "SubDir \<Rightarrow> string \<Rightarrow> string" where
  "fullKeyName self key =
     (if length (ext self) > 0 \<and> drop (length key - length (ext self)) key \<noteq> ext self
      then path self @ key @ ext self
      else path self @ key)"

text \<open>\<^verbatim>\<open>os.path.split\<close> (POSIX): cut after the last \<^verbatim>\<open>/\<close>; the head loses its trailing
  slashes unless it consists of slashes only.\<close>

definition os_path_split :: "string \<Rightarrow> string \<times> string" where
  "os_path_split p =
     (let tail = rev (takeWhile (\<lambda>c. c \<noteq> CHR 0x2F) (rev p));
          head = take (length p - length tail) p
      in if head \<noteq> [] \<and> head \<noteq> replicate (length head) (CHR 0x2F)
         then (rev (dropWhile (\<lambda>c. c = CHR 0x2F) (rev head)), tail)
         else (head, tail))"

definition os_remove :: "string \<Rightarrow> world \<Rightarrow> error + world" where
  "os_remove name w =
     (case fs w name of
        None \<Rightarrow> Inl (FileNotFoundError name)
      | Some Dir \<Rightarrow> Inl (IsADirectoryError name)
      | Some (File c) \<Rightarrow> Inr (w\<lparr>fs := (fs w)(name := None)\<rparr>))"

definition pickle_load :: "content \<Rightarrow> error + pyval" where
  "pickle_load c =
     (case c of Pickled v \<Rightarrow> Inr v | Truncated \<Rightarrow> Inl EOFError | Garbled \<Rightarrow> Inl UnpicklingError)"

text \<open>The \<^verbatim>\<open>reader\<close> of \<^verbatim>\<open>read\<close>: \<^verbatim>\<open>with open(fullFileName,"rb") as f: return pickle.load(f)\<close>.\<close>

definition reader :: "string \<Rightarrow> string \<Rightarrow> pyval \<Rightarrow> world \<Rightarrow> error + pyval" where
  "reader key fullFileName dflt w =
     (case fs w fullFileName of
        None \<Rightarrow> Inl (FileNotFoundError fullFileName)
      | Some Dir \<Rightarrow> Inl (IsADirectoryError fullFileName)
      | Some (File c) \<Rightarrow> pickle_load c)"

text \<open>
  \<^verbatim>\<open>_read\<close>, for a key that is a string. A key with a directory part goes to a nested
  \<^verbatim>\<open>SubDir\<close>, whose construction is not modelled: that path ends in \<open>NestedKey\<close>.
\<close>

definition SubDir_read_util ::
  "(string \<Rightarrow> string \<Rightarrow> pyval \<Rightarrow> world \<Rightarrow> error + pyval) \<Rightarrow>
   SubDir \<Rightarrow> string \<Rightarrow> pyval \<Rightarrow> bool \<Rightarrow> world \<Rightarrow> (error + pyval) \<times> world" where
  "SubDir_read_util rd self key0 dflt throwOnError w =
     (if \<not> length key0 > 0 then (Inl (VerifyError ''relFileOrDir not specified''), w)
      else case os_path_split key0 of (sub, key) \<Rightarrow>
        if length sub > 0 then (Inl (NestedKey key0), w)
        else if \<not> length key > 0
          then (Inl (VerifyError ''relFileOrDir indicates a directory, not a file''), w)
        else
          let fullFileName = fullKeyName self key
          in case fs w fullFileName of
               None \<Rightarrow> (if throwOnError then (Inl (KeyError key), w) else (Inr dflt, w))
             | Some Dir \<Rightarrow> (Inl (VerifyError ''Cannot read: object exists, but is not a file''), w)
             | Some (File c) \<Rightarrow>
                 (case rd key fullFileName dflt w of
                    Inr v \<Rightarrow> (Inr v, w)
                  | Inl e \<Rightarrow>
                      if e = EOFError then
                        let w' = (case os_remove fullFileName w of
                                    Inr w1 \<Rightarrow> w1\<lparr>warnings := warnings w1 @
                                               [Cannot_read_file_deleted key fullFileName]\<rparr>
                                  | Inl e' \<Rightarrow> w\<lparr>warnings := warnings w @
                                               [Cannot_read_delete_failed key fullFileName]\<rparr>)
                        in if throwOnError then (Inl (KeyError key), w') else (Inr dflt, w')
                      else (Inl e, w)))"

definition SubDir_read ::
  "SubDir \<Rightarrow> string \<Rightarrow> pyval \<Rightarrow> bool \<Rightarrow> world \<Rightarrow> (error + pyval) \<times> world" where
  "SubDir_read self key dflt throwOnError w =
     SubDir_read_util reader self key dflt throwOnError w"

text \<open>The \<^verbatim>\<open>writer\<close> of \<^verbatim>\<open>write\<close>: \<^verbatim>\<open>with open(fullFileName,"wb") as f: pickle.dump(obj,f,-1)\<close>.\<close>

definition writer ::
  "(pyval \<Rightarrow> dump_outcome) \<Rightarrow> string \<Rightarrow> string \<Rightarrow> pyval \<Rightarrow> world \<Rightarrow>
   (error + unit) \<times> world" where
  "writer dump key fullFileName obj w =
     (case fs w fullFileName of
        Some Dir \<Rightarrow> (Inl (IsADirectoryError fullFileName), w)
      | _ \<Rightarrow>
          (case dump obj of
             Dumped \<Rightarrow> (Inr (), w\<lparr>fs := (fs w)(fullFileName \<mapsto> File (Pickled obj))\<rparr>)
           | Dump_raises c \<Rightarrow> (Inl PicklingError, w\<lparr>fs := (fs w)(fullFileName \<mapsto> File c)\<rparr>)))"

text \<open>
  \<^verbatim>\<open>_write\<close>, for a key that is a string. As in \<open>SubDir_read_util\<close>, a key with a
  directory part ends in \<open>NestedKey\<close>: the nested \<^verbatim>\<open>SubDir\<close> it is written to is not
  modelled.
\<close>

definition SubDir_write_util ::
  "(string \<Rightarrow> string \<Rightarrow> pyval \<Rightarrow> world \<Rightarrow> (error + unit) \<times> world) \<Rightarrow>
   SubDir \<Rightarrow> string \<Rightarrow> pyval \<Rightarrow> world \<Rightarrow> (error + unit) \<times> world" where
  "SubDir_write_util wr self key0 obj w =
     (if \<not> length key0 > 0 then (Inl (VerifyError ''key is empty''), w)
      else case os_path_split key0 of (sub, key) \<Rightarrow>
        if \<not> length key > 0
          then (Inl (VerifyError ''key indicates a directory, not a file''), w)
        else if length sub > 0 then (Inl (NestedKey key0), w)
        else wr key (fullKeyName self key) obj w)"

definition SubDir_write ::
  "(pyval \<Rightarrow> dump_outcome) \<Rightarrow> SubDir \<Rightarrow> string \<Rightarrow> pyval \<Rightarrow> world \<Rightarrow>
   (error + unit) \<times> world" where
  "SubDir_write dump self key obj w = SubDir_write_util (writer dump) self key obj w"

definition SubDir_delete :: "SubDir \<Rightarrow> string \<Rightarrow> bool \<Rightarrow> world \<Rightarrow> error + world" where
  "SubDir_delete self key throwOnError w =
     (if \<not> length key > 0 then Inl (VerifyError ''key is empty'')
      else case os_path_split key of (sub, key2) \<Rightarrow>
        if \<not> length key2 > 0 then Inl (VerifyError ''key indicates a directory, not a file'')
        else
          let fullFileName = fullKeyName self key
          in if fs w fullFileName = None
             then (if throwOnError then Inl (KeyError key) else Inr w)
             else os_remove fullFileName w)"

definition SubDir_exists :: "SubDir \<Rightarrow> string \<Rightarrow> world \<Rightarrow> error + bool" where
  "SubDir_exists self key w =
     (let fullFileName = fullKeyName self key
      in case fs w fullFileName of
           None \<Rightarrow> Inr False
         | Some Dir \<Rightarrow> Inl (Exceptn ''Structural error: key exists, but is not a file'')
         | Some (File c) \<Rightarrow> Inr True)"

text \<open>\<^verbatim>\<open>__getitem__\<close>, \<^verbatim>\<open>__setitem__\<close> and \<^verbatim>\<open>__contains__\<close>.\<close>

definition SubDir_getitem :: "SubDir \<Rightarrow> string \<Rightarrow> world \<Rightarrow> (error + pyval) \<times> world" where
  "SubDir_getitem self key w = SubDir_read self key PNone True w"

definition SubDir_setitem ::
  "(pyval \<Rightarrow> dump_outcome) \<Rightarrow> SubDir \<Rightarrow> string \<Rightarrow> pyval \<Rightarrow> world \<Rightarrow>
   (error + unit) \<times> world" where
  "SubDir_setitem dump self key v w = SubDir_write dump self key v w"

definition SubDir_contains :: "SubDir \<Rightarrow> string \<Rightarrow> world \<Rightarrow> error + bool" where
  "SubDir_contains self key w = SubDir_exists self key w"

section \<open>The memoizing wrapper (subdir.py, SubDir.cache)\<close>

text \<open>
  A wrapped function \<^verbatim>\<open>f\<close> is its \<^verbatim>\<open>__module__\<close>, its \<^verbatim>\<open>__name__\<close> and its body, a
  pure function of the positional and the keyword arguments. The attributes the
  wrapper sets on itself are \<^verbatim>\<open>cached\<close>, \<^verbatim>\<open>cacheArgKey\<close> and \<^verbatim>\<open>cacheFullKey\<close>; the
  wrapper never reads them.
\<close>

record pyfun =
  f_module :: string
  f_name :: string
  f_body :: "pyval list \<Rightarrow> (string \<times> pyval) list \<Rightarrow> pyval"

record wrapper_attrs =
  cached :: bool
  cacheArgKey :: "string option"
  cacheFullKey :: "string option"

text \<open>
  The names of the two nested directories of \<^verbatim>\<open>f_subDir\<close>:
  \<^verbatim>\<open>f.__module__[0:64] if cacheSubDir is None else cacheSubDir\<close>, then
  \<^verbatim>\<open>f.__name__[0:64] if cacheName is None else cacheName\<close>. The wrapper below takes the
  resulting \<^verbatim>\<open>f_subDir\<close> as an argument.
\<close>

definition cache_dirs :: "pyfun \<Rightarrow> string option \<Rightarrow> string option \<Rightarrow> string \<times> string" where
  "cache_dirs f cacheName cacheSubDir =
     ((case cacheSubDir of None \<Rightarrow> take 64 (f_module f) | Some d \<Rightarrow> d),
      (case cacheName of None \<Rightarrow> take 64 (f_name f) | Some n \<Rightarrow> n))"

text \<open>\<^verbatim>\<open>f(*vargs,**kwargs)\<close>: the value of the body, and one more execution counted.\<close>

definition call :: "pyfun \<Rightarrow> pyval list \<Rightarrow> (string \<times> pyval) list \<Rightarrow> world \<Rightarrow> pyval \<times> world" where
  "call f vargs kwargs w = (f_body f vargs kwargs, w\<lparr>calls := calls w + 1\<rparr>)"

text \<open>
  The first lines of the wrapper: the mode is \<^verbatim>\<open>'yes'\<close>, or
  \<^verbatim>\<open>kwargs['caching'].lower()\<close>, and the key \<^verbatim>\<open>'caching'\<close> is deleted from \<^verbatim>\<open>kwargs\<close>.
  Of the values of the model only a \<^verbatim>\<open>str\<close> has the method \<^verbatim>\<open>lower\<close>; other types
  that have one (\<^verbatim>\<open>bytes\<close>) are not covered.
\<close>

definition caching_of :: "(string \<times> pyval) list \<Rightarrow> error + string \<times> (string \<times> pyval) list" where
  "caching_of kwargs =
     (case map_of kwargs ''caching'' of
        None \<Rightarrow> Inr (''yes'', kwargs)
      | Some v \<Rightarrow>
          (case v of
             PStr s \<Rightarrow> Inr (lower s, filter (\<lambda>(k, v). k \<noteq> ''caching'') kwargs)
           | _ \<Rightarrow> Inl (AttributeError ''lower'')))"

definition wrapper ::
  "(pyval \<Rightarrow> dump_outcome) \<Rightarrow> SubDir \<Rightarrow> pyfun \<Rightarrow> pyval list \<Rightarrow> (string \<times> pyval) list \<Rightarrow>
   wrapper_attrs \<times> world \<Rightarrow> (error + pyval) \<times> wrapper_attrs \<times> world" where
  "wrapper dump f_subDir f vargs kwargs0 st =
     (case st of (a, w) \<Rightarrow>
      case caching_of kwargs0 of
        Inl e \<Rightarrow> (Inl e, a, w)
      | Inr (caching, kwargs) \<Rightarrow>
          if caching = ''no'' then
            (case call f vargs kwargs w of (v, w') \<Rightarrow>
               (Inr v, a\<lparr>cached := False, cacheArgKey := None, cacheFullKey := None\<rparr>, w'))
          else if caching \<notin> set [''yes'', ''clear'', ''update''] then
            (Inl (VerifyError ''caching: argument must be yes, no, clear, or update''), a, w)
          else
            case uniqueHash [PStr (f_module f), PStr (f_name f), PColl vargs, kwargs_dict kwargs] []
            of
              Inl e \<Rightarrow> (Inl e, a, w)
            | Inr key \<Rightarrow>
                let a1 = a\<lparr>cacheArgKey := Some key,
                           cacheFullKey := Some (fullKeyName f_subDir key),
                           cached := False\<rparr>
                in case (if caching \<noteq> ''yes'' then SubDir_delete f_subDir key False w else Inr w)
                   of
                     Inl e \<Rightarrow> (Inl e, a1, w)
                   | Inr w1 \<Rightarrow>
                       if caching = ''clear'' then
                         (case call f vargs kwargs w1 of (v, w') \<Rightarrow> (Inr v, a1, w'))
                       else
                         case (if caching = ''yes'' then SubDir_contains f_subDir key w1
                               else Inr False)
                         of
                           Inl e \<Rightarrow> (Inl e, a1, w1)
                         | Inr True \<Rightarrow>
                             (case SubDir_getitem f_subDir key w1 of
                                (r, w') \<Rightarrow> (r, a1\<lparr>cached := True\<rparr>, w'))
                         | Inr False \<Rightarrow>
                             (case call f vargs kwargs w1 of (v, w2) \<Rightarrow>
                                case SubDir_write dump f_subDir key v w2 of
                                  (Inl e, w3) \<Rightarrow> (Inl e, a1, w3)
                                | (Inr u, w3) \<Rightarrow>
                                    (case SubDir_setitem dump f_subDir key v w3 of
                                       (Inl e, w4) \<Rightarrow> (Inl e, a1, w4)
                                     | (Inr u', w4) \<Rightarrow> (Inr v, a1, w4))))"

subsection \<open>The end-to-end scenario\<close>

text \<open>
  The function \<^verbatim>\<open>f(x) = x * 2\<close> of the module \<^verbatim>\<open>testns\<close> (on an integer argument), its
  cache directory, a wrapper that has not been called yet and an empty store.
\<close>

definition testns_f :: pyfun where
  "testns_f = \<lparr>f_module = ''testns'', f_name = ''f'',
               f_body = (\<lambda>vargs kwargs. case vargs of [PInt x] \<Rightarrow> PInt (x * 2) | _ \<Rightarrow> PNone)\<rparr>"

definition testns_dir :: SubDir where
  "testns_dir = \<lparr>path = ''/cache/testns/f/'', ext = ''.pck''\<rparr>"

text \<open>
  A \<open>dump\<close> for the scenario: the values made of atoms, mappings and collections are
  pickled; on any other value \<^verbatim>\<open>pickle.dump\<close> raises and leaves an empty file.
\<close>

fun plain_data :: "pyval \<Rightarrow> bool" where
  "plain_data PNone = True"
| "plain_data (PStr s) = True"
| "plain_data (PInt i) = True"
| "plain_data (PBool b) = True"
| "plain_data (PRepr r) = True"
| "plain_data (PDict d) = list_all (\<lambda>(k, v). plain_data v) d"
| "plain_data (PColl xs) = list_all plain_data xs"
| "plain_data (PFunc lam src) = False"
| "plain_data PProperty = False"
| "plain_data (PObject d) = False"
| "plain_data POpaque = False"

definition data_dump :: "pyval \<Rightarrow> dump_outcome" where
  "data_dump v = (if plain_data v then Dumped else Dump_raises Truncated)"

definition attrs0 :: wrapper_attrs where
  "attrs0 = \<lparr>cached = False, cacheArgKey = None, cacheFullKey = None\<rparr>"

definition world0 :: world where
  "world0 = \<lparr>fs = Map.empty, warnings = [], calls = 0\<rparr>"

text \<open>A store that holds the value 7 under the key of \<^verbatim>\<open>f(3)\<close>.\<close>

definition stale_world :: world where
  "stale_world =
     \<lparr>fs = [''/cache/testns/f/525b2293522de82703cd825c3c4a82af.pck'' \<mapsto> File (Pickled (PInt 7))],
      warnings = [], calls = 0\<rparr>"

text \<open>
  Two functions of the module \<^verbatim>\<open>testns\<close> whose names start with an underscore and differ
  in their 65th character only, and the directory \<^verbatim>\<open>SubDir.cache\<close> gives to both.
\<close>

definition private_a :: pyfun where
  "private_a = \<lparr>f_module = ''testns'',
                f_name = CHR ''_'' # replicate 63 (CHR ''x'') @ ''a'',
                f_body = (\<lambda>vargs kwargs. PInt 1)\<rparr>"

definition private_b :: pyfun where
  "private_b = \<lparr>f_module = ''testns'',
                f_name = CHR ''_'' # replicate 63 (CHR ''x'') @ ''b'',
                f_body = (\<lambda>vargs kwargs. PInt 2)\<rparr>"

definition private_dir :: SubDir where
  "private_dir = \<lparr>path = ''/cache/testns/_'' @ replicate 63 (CHR ''x'') @ ''/'', ext = ''.pck''\<rparr>"

section \<open>The shape of the digests\<close>

lemma length_le_bytes: "length (le_bytes n w) = n"
  by (induction n arbitrary: w) simp_all

lemma length_hex_bytes: "length (hex_bytes bs) = 2 * length bs"
  by (induction bs) (simp_all add: hex_bytes_def hex_byte_def)

lemma hexchars_nth: "n < 16 \<Longrightarrow> hexchars ! n \<in> set hexchars"
  by (rule nth_mem) (simp add: hexchars_def)

lemma set_hex_byte: "set (hex_byte b) \<subseteq> set hexchars"
proof -
  have "unat b < 256" using unsigned_less [of b] by simp
  then have "unat b div 16 < 16" by simp
  then show ?thesis by (simp add: hex_byte_def hexchars_nth)
qed

lemma set_hex_bytes: "set (hex_bytes bs) \<subseteq> set hexchars"
  using set_hex_byte by (auto simp: hex_bytes_def)

lemma length_md5_digest: "length (md5_digest m) = 16"
  by (simp add: md5_digest_def length_le_bytes split: prod.splits)

lemma length_md5_hexdigest: "length (md5_hexdigest m) = 32"
  by (simp add: md5_hexdigest_def length_hex_bytes length_md5_digest)

lemma set_md5_hexdigest: "set (md5_hexdigest m) \<subseteq> set hexchars"
  by (simp add: md5_hexdigest_def set_hex_bytes)

section \<open>The cache mode table\<close>

text \<open>
  C2. The facets the constructor computes for the six mode names. Five rows are those of
  the table in the docstring of \<^verbatim>\<open>CacheMode\<close>; the row of \<^verbatim>\<open>update\<close> is not: the docstring
  (and the facet table of the specification) has no delete upon start for \<^verbatim>\<open>update\<close>, the
  constructor computes \<^verbatim>\<open>_delete = True\<close> for it.
\<close>

theorem CacheMode_update_deletes:
  "map (\<lambda>m. CacheMode_init (MStr m)) [''on'', ''gen'', ''off'', ''update'', ''clear'', ''readonly''] =
   [Inr \<lparr>mode = ''on'', cm_read = True, cm_write = True, cm_delete = False, cm_del_in = True\<rparr>,
    Inr \<lparr>mode = ''gen'', cm_read = True, cm_write = True, cm_delete = False, cm_del_in = False\<rparr>,
    Inr \<lparr>mode = ''off'', cm_read = False, cm_write = False, cm_delete = False, cm_del_in = False\<rparr>,
    Inr \<lparr>mode = ''update'', cm_read = False, cm_write = True, cm_delete = True, cm_del_in = True\<rparr>,
    Inr \<lparr>mode = ''clear'', cm_read = False, cm_write = False, cm_delete = True, cm_del_in = True\<rparr>,
    Inr \<lparr>mode = ''readonly'', cm_read = True, cm_write = False, cm_delete = False, cm_del_in = False\<rparr>]"
  by (simp add: CacheMode_init_def MODES_def ON_def GEN_def OFF_def UPDATE_def CLEAR_def READONLY_def)

section \<open>Mappings with keys that are not strings\<close>

text \<open>
  C10. \<^verbatim>\<open>uniqueHash({1: 2})\<close> raises: the test \<^verbatim>\<open>k[:1] == '_'\<close> slices the integer key.
  The error is not the documented \<^verbatim>\<open>TypeError("Cannot handle type ...")\<close>.
\<close>

theorem uniqueHash_int_key_raises:
  "uniqueHash [PDict [(KInt 1, PInt 2)]] [] = Inl TypeError_not_subscriptable"
  by (simp add: uniqueHash_def uniqueHashExt_def sorted_keys_def skipped_def)

section \<open>The hash of a mapping with string keys\<close>

text \<open>
  The loop over the sorted keys reads the mapping only at the keys that do not start with
  an underscore, and it passes over the others.
\<close>

lemma visit_keys_step:
  "visit_keys pf d (KStr s # ks) m =
     (if \<not> public s then visit_keys pf d ks m
      else case map_of d (KStr s) of
             None \<Rightarrow> Inl (KeyError s)
           | Some v \<Rightarrow>
               (case visit pf v (update (repr_key (KStr s)) m) of
                  Inl e \<Rightarrow> Inl e
                | Inr m' \<Rightarrow> visit_keys pf d ks m'))"
  by (simp add: public_def)

lemma visit_keys_cong:
  "(\<And>s. KStr s \<in> set ks \<Longrightarrow> public s \<Longrightarrow> map_of d (KStr s) = map_of d' (KStr s)) \<Longrightarrow>
   visit_keys pf d ks m = visit_keys pf d' ks m"
proof (induction ks arbitrary: m)
  case Nil
  show ?case by simp
next
  case (Cons k ks)
  have rest: "visit_keys pf d ks m' = visit_keys pf d' ks m'" for m'
    by (rule Cons.IH) (simp add: Cons.prems)
  show ?case
  proof (cases k)
    case (KInt i)
    then show ?thesis by simp
  next
    case (KStr s)
    show ?thesis
    proof (cases "public s")
      case True
      then have "map_of d (KStr s) = map_of d' (KStr s)"
        using Cons.prems [of s] KStr by simp
      then show ?thesis
        unfolding KStr visit_keys_step
        by (simp only: rest cong: sum.case_cong option.case_cong)
    next
      case False
      then show ?thesis
        unfolding KStr visit_keys_step by (simp only: rest if_True simp_thms)
    qed
  qed
qed

lemma visit_keys_filter:
  "visit_keys pf d (map KStr ss) m = visit_keys pf d (map KStr (filter public ss)) m"
proof (induction ss arbitrary: m)
  case Nil
  show ?case by simp
next
  case (Cons s ss)
  show ?case
  proof (cases "public s")
    case True
    then show ?thesis
      by (simp only: list.map filter.simps if_True visit_keys_step Cons.IH [symmetric])
  next
    case False
    then show ?thesis
      by (simp only: list.map filter.simps if_False visit_keys_step Cons.IH [symmetric] if_True simp_thms)
  qed
qed

lemma sorted_keys_kwargs:
  "sorted_keys (map fst (map (\<lambda>(k, v). (KStr k, v)) kw)) = Inr (map KStr (sort (map fst kw)))"
proof -
  have a: "map fst (map (\<lambda>(k, v). (KStr k, v)) kw) = map KStr (map fst kw)"
    by (induction kw) auto
  have b: "list_all is_KStr (map KStr ss)" for ss
    by (induction ss) simp_all
  have c: "map str_of (map KStr ss) = ss" for ss
    by (induction ss) simp_all
  show ?thesis by (simp only: a sorted_keys_def b c if_True)
qed

lemma map_of_kwargs:
  "map_of (map (\<lambda>(k, v). (KStr k, v)) kw) (KStr s) = map_of kw s"
  by (induction kw) auto

lemma visit_kwargs_dict:
  "visit pf (kwargs_dict kw) m =
   visit_keys pf (map (\<lambda>(k, v). (KStr k, v)) kw) (map KStr (sort (filter public (map fst kw)))) m"
proof -
  have "visit pf (kwargs_dict kw) m =
        visit_keys pf (map (\<lambda>(k, v). (KStr k, v)) kw) (map KStr (sort (map fst kw))) m"
    unfolding kwargs_dict_def visit.simps sorted_keys_kwargs by (simp only: sum.case)
  also have "\<dots> = visit_keys pf (map (\<lambda>(k, v). (KStr k, v)) kw)
                     (map KStr (filter public (sort (map fst kw)))) m"
    by (rule visit_keys_filter)
  finally show ?thesis by (simp only: filter_sort)
qed

lemma public_keys_eq:
  assumes "distinct (map fst kw)" and "distinct (map fst kw')"
    and agree: "\<And>k. public k \<Longrightarrow> map_of kw k = map_of kw' k"
  shows "sort (filter public (map fst kw)) = sort (filter public (map fst kw'))"
proof (rule sorted_distinct_set_unique)
  have "k \<in> fst ` set kw \<longleftrightarrow> k \<in> fst ` set kw'" if "public k" for k
    using agree [OF that] map_of_eq_None_iff [of kw k] map_of_eq_None_iff [of kw' k] by simp
  then show "set (sort (filter public (map fst kw))) = set (sort (filter public (map fst kw')))"
    by auto
  show "sorted (sort (filter public (map fst kw)))" by simp
  show "sorted (sort (filter public (map fst kw')))" by simp
  show "distinct (sort (filter public (map fst kw)))" using assms(1) by simp
  show "distinct (sort (filter public (map fst kw')))" using assms(2) by simp
qed

lemma visit_kwargs_cong:
  assumes "distinct (map fst kw)" and "distinct (map fst kw')"
    and agree: "\<And>k. public k \<Longrightarrow> map_of kw k = map_of kw' k"
  shows "visit pf (kwargs_dict kw) m = visit pf (kwargs_dict kw') m"
proof -
  have "visit pf (kwargs_dict kw) m =
        visit_keys pf (map (\<lambda>(k, v). (KStr k, v)) kw)
          (map KStr (sort (filter public (map fst kw')))) m"
    by (simp only: visit_kwargs_dict public_keys_eq [OF assms])
  also have "\<dots> = visit_keys pf (map (\<lambda>(k, v). (KStr k, v)) kw')
          (map KStr (sort (filter public (map fst kw')))) m"
    by (rule visit_keys_cong) (simp only: map_of_kwargs agree)
  finally show ?thesis by (simp only: visit_kwargs_dict)
qed

lemma visit_elems_append:
  "visit_elems pf (xs @ ys) m =
     (case visit_elems pf xs m of Inl e \<Rightarrow> Inl e | Inr m' \<Rightarrow> visit_elems pf ys m')"
proof (induction xs arbitrary: m)
  case Nil
  show ?case by simp
next
  case (Cons x xs)
  show ?case
  proof (cases "skipped x")
    case True
    then show ?thesis using Cons.IH by simp
  next
    case False
    then show ?thesis using Cons.IH by (cases "visit pf x m") simp_all
  qed
qed

lemma skipped_kwargs_dict: "\<not> skipped (kwargs_dict kw)"
  by (simp add: skipped_def kwargs_dict_def)

lemma visit_elems_kwargs_cong:
  assumes "visit pf (kwargs_dict kw) = visit pf (kwargs_dict kw')"
  shows "visit_elems pf (pre @ kwargs_dict kw # post) m =
         visit_elems pf (pre @ kwargs_dict kw' # post) m"
  by (simp only: visit_elems_append visit_elems.simps skipped_kwargs_dict if_False assms)

text \<open>
  C8. Two keyword-argument dictionaries that hold the same items under the keys that do
  not start with \<^verbatim>\<open>_\<close> have the same hash, whatever they hold under the keys that do:
  adding, removing or changing an item with a leading underscore leaves the hash as it is,
  for every digest length, with or without function sources, after any positional
  arguments. In particular \<^verbatim>\<open>hash(x=1, _mode="on") = hash(x=1, _mode="update")\<close>.
\<close>

theorem underscore_kwargs_excluded:
  assumes "distinct (map fst kw)" and "distinct (map fst kw')"
    and "\<forall>k. take 1 k \<noteq> ''_'' \<longrightarrow> map_of kw k = map_of kw' k"
  shows "uniqueHashExt len pf args kw = uniqueHashExt len pf args kw'"
proof -
  have "visit pf (kwargs_dict kw) m = visit pf (kwargs_dict kw') m" for m
    using assms by (intro visit_kwargs_cong) (simp_all add: public_def)
  then show ?thesis by (simp only: uniqueHashExt_def)
qed

theorem underscore_kwargs_excluded_witness:
  "uniqueHash [] [(''x'', PInt 1), (''_mode'', PStr ''on'')] =
     uniqueHash [] [(''x'', PInt 1), (''_mode'', PStr ''update'')] \<and>
   uniqueHash [] [(''x'', PInt 1), (''_mode'', PStr ''on'')] = uniqueHash [] [(''x'', PInt 1)]"
proof -
  have a: "uniqueHashExt None False [] [(''x'', PInt 1), (''_mode'', PStr ''on'')] =
           uniqueHashExt None False [] [(''x'', PInt 1), (''_mode'', PStr ''update'')]"
    by (rule underscore_kwargs_excluded) auto
  have b: "uniqueHashExt None False [] [(''x'', PInt 1), (''_mode'', PStr ''on'')] =
           uniqueHashExt None False [] [(''x'', PInt 1)]"
    by (rule underscore_kwargs_excluded) auto
  show ?thesis using a b by (simp only: uniqueHash_def simp_thms)
qed

text \<open>
  C9. Two dictionaries with string keys that hold the same items, inserted in different
  orders, have the same hash: as the keyword arguments, and as a positional argument.
  In particular \<^verbatim>\<open>hash(a=1, b=2) = hash(b=2, a=1)\<close>.
\<close>

theorem mapping_order_insensitive:
  assumes "distinct (map fst kw)" and "distinct (map fst kw')" and "set kw = set kw'"
  shows "uniqueHashExt len pf args kw = uniqueHashExt len pf args kw' \<and>
         uniqueHashExt len pf (pre @ kwargs_dict kw # post) kws =
           uniqueHashExt len pf (pre @ kwargs_dict kw' # post) kws"
proof -
  have "map_of kw = map_of kw'"
    using assms by (simp add: map_of_inject_set)
  then have v: "visit pf (kwargs_dict kw) = visit pf (kwargs_dict kw')"
    using assms(1,2) by (intro ext visit_kwargs_cong) simp_all
  have e: "visit pf (PColl (pre @ kwargs_dict kw # post)) [] =
           visit pf (PColl (pre @ kwargs_dict kw' # post)) []"
    by (simp only: visit.simps visit_elems_kwargs_cong [OF v])
  show ?thesis by (simp only: uniqueHashExt_def v e simp_thms)
qed

theorem mapping_order_insensitive_witness:
  "uniqueHash [] [(''a'', PInt 1), (''b'', PInt 2)] = uniqueHash [] [(''b'', PInt 2), (''a'', PInt 1)] \<and>
   uniqueHash [kwargs_dict [(''a'', PInt 1), (''b'', PInt 2)]] [] =
     uniqueHash [kwargs_dict [(''b'', PInt 2), (''a'', PInt 1)]] []"
proof -
  have d1: "distinct (map fst [(''a'', PInt 1), (''b'', PInt 2)])" by simp
  have d2: "distinct (map fst [(''b'', PInt 2), (''a'', PInt 1)])" by simp
  have s: "set [(''a'', PInt 1), (''b'', PInt 2)] = set [(''b'', PInt 2), (''a'', PInt 1)]" by auto
  show ?thesis
    using mapping_order_insensitive [OF d1 d2 s, of None False "[]" "[]" "[]" "[]"]
    by (simp only: uniqueHash_def append_Nil)
qed

section \<open>The wrapper on the keys it computes\<close>

text \<open>
  The key of the wrapper is an MD5 digest in hexadecimal: it is not empty and has no
  directory part, so the store reads, writes and deletes the file \<^verbatim>\<open>fullKeyName(key)\<close>.
\<close>

lemma uniqueHash_key:
  assumes "uniqueHash args kw = Inr key"
  shows "length key = 32" and "set key \<subseteq> set hexchars"
proof -
  from assms obtain m where "key = md5_hexdigest m"
    by (auto simp: uniqueHash_def uniqueHashExt_def split: sum.splits)
  then show "length key = 32" and "set key \<subseteq> set hexchars"
    by (simp_all add: length_md5_hexdigest set_md5_hexdigest)
qed

lemma slash_not_hex: "CHR 0x2F \<notin> set hexchars"
  by (simp add: hexchars_def)

lemma os_path_split_plain:
  assumes "CHR 0x2F \<notin> set key"
  shows "os_path_split key = ([], key)"
proof -
  have h: "takeWhile (\<lambda>c. c \<noteq> CHR 0x2F) (rev key) = rev key"
    using assms by (intro takeWhile_eq_all_conv [THEN iffD2]) auto
  show ?thesis unfolding os_path_split_def h by simp
qed

lemma uniqueHash_key_plain:
  assumes "uniqueHash args kw = Inr key"
  shows "key \<noteq> []" and "os_path_split key = ([], key)"
proof -
  show "key \<noteq> []" using uniqueHash_key(1) [OF assms] by auto
  have "CHR 0x2F \<notin> set key"
    using uniqueHash_key(2) [OF assms] slash_not_hex by auto
  then show "os_path_split key = ([], key)" by (rule os_path_split_plain)
qed

lemma SubDir_getitem_plain:
  assumes "key \<noteq> []" and "os_path_split key = ([], key)"
  shows "SubDir_getitem self key w =
     (case fs w (fullKeyName self key) of
        None \<Rightarrow> (Inl (KeyError key), w)
      | Some Dir \<Rightarrow> (Inl (VerifyError ''Cannot read: object exists, but is not a file''), w)
      | Some (File (Pickled v)) \<Rightarrow> (Inr v, w)
      | Some (File Truncated) \<Rightarrow>
          (Inl (KeyError key),
           w\<lparr>fs := (fs w)(fullKeyName self key := None),
             warnings := warnings w @ [Cannot_read_file_deleted key (fullKeyName self key)]\<rparr>)
      | Some (File Garbled) \<Rightarrow> (Inl UnpicklingError, w))"
  using assms
  by (simp add: SubDir_getitem_def SubDir_read_def SubDir_read_util_def reader_def pickle_load_def
      os_remove_def Let_def split: option.splits node.splits content.splits)

lemma SubDir_write_plain:
  assumes "key \<noteq> []" and "os_path_split key = ([], key)"
  shows "SubDir_write dump self key v w =
     (case fs w (fullKeyName self key) of
        Some Dir \<Rightarrow> (Inl (IsADirectoryError (fullKeyName self key)), w)
      | _ \<Rightarrow>
          (case dump v of
             Dumped \<Rightarrow> (Inr (), w\<lparr>fs := (fs w)(fullKeyName self key \<mapsto> File (Pickled v))\<rparr>)
           | Dump_raises c \<Rightarrow>
               (Inl PicklingError, w\<lparr>fs := (fs w)(fullKeyName self key \<mapsto> File c)\<rparr>)))"
  using assms by (simp add: SubDir_write_def SubDir_write_util_def writer_def)

lemma SubDir_delete_plain:
  assumes "key \<noteq> []" and "os_path_split key = ([], key)"
  shows "SubDir_delete self key False w =
     (case fs w (fullKeyName self key) of
        None \<Rightarrow> Inr w
      | Some Dir \<Rightarrow> Inl (IsADirectoryError (fullKeyName self key))
      | Some (File c) \<Rightarrow> Inr (w\<lparr>fs := (fs w)(fullKeyName self key := None)\<rparr>))"
  using assms
  by (simp add: SubDir_delete_def os_remove_def Let_def split: option.splits node.splits)

lemma SubDir_contains_eq:
  "SubDir_contains self key w =
     (case fs w (fullKeyName self key) of
        None \<Rightarrow> Inr False
      | Some Dir \<Rightarrow> Inl (Exceptn ''Structural error: key exists, but is not a file'')
      | Some (File c) \<Rightarrow> Inr True)"
  by (simp add: SubDir_contains_def SubDir_exists_def)

lemma caching_of_default:
  "map_of kwargs ''caching'' = None \<Longrightarrow> caching_of kwargs = Inr (''yes'', kwargs)"
  by (simp add: caching_of_def)

lemma caching_of_token:
  "map_of kwargs ''caching'' = Some (PStr s) \<Longrightarrow>
   caching_of kwargs = Inr (lower s, filter (\<lambda>(k, v). k \<noteq> ''caching'') kwargs)"
  by (simp add: caching_of_def)

lemma wrapper_yes:
  assumes mode: "caching_of kwargs0 = Inr (''yes'', kwargs)"
    and key: "uniqueHash [PStr (f_module f), PStr (f_name f), PColl vargs, kwargs_dict kwargs] []
              = Inr key"
  shows "wrapper dump f_subDir f vargs kwargs0 (a, w) =
     (let full = fullKeyName f_subDir key;
          a1 = a\<lparr>cacheArgKey := Some key, cacheFullKey := Some full, cached := False\<rparr>;
          v = f_body f vargs kwargs
      in case fs w full of
           None \<Rightarrow>
             (case dump v of
                Dumped \<Rightarrow>
                  (Inr v, a1,
                   w\<lparr>calls := calls w + 1, fs := (fs w)(full \<mapsto> File (Pickled v))\<rparr>)
              | Dump_raises c \<Rightarrow>
                  (Inl PicklingError, a1,
                   w\<lparr>calls := calls w + 1, fs := (fs w)(full \<mapsto> File c)\<rparr>))
         | Some Dir \<Rightarrow>
             (Inl (Exceptn ''Structural error: key exists, but is not a file''), a1, w)
         | Some (File (Pickled x)) \<Rightarrow> (Inr x, a1\<lparr>cached := True\<rparr>, w)
         | Some (File Truncated) \<Rightarrow>
             (Inl (KeyError key), a1\<lparr>cached := True\<rparr>,
              w\<lparr>fs := (fs w)(full := None),
                warnings := warnings w @ [Cannot_read_file_deleted key full]\<rparr>)
         | Some (File Garbled) \<Rightarrow> (Inl UnpicklingError, a1\<lparr>cached := True\<rparr>, w))"
proof -
  note plain = uniqueHash_key_plain [OF key]
  show ?thesis
    unfolding wrapper_def
    by (simp add: mode key SubDir_contains_eq SubDir_getitem_plain [OF plain]
        SubDir_write_plain [OF plain] SubDir_setitem_def call_def Let_def
        split: option.splits node.splits content.splits dump_outcome.splits)
qed

lemma wrapper_clear:
  assumes mode: "caching_of kwargs0 = Inr (''clear'', kwargs)"
    and key: "uniqueHash [PStr (f_module f), PStr (f_name f), PColl vargs, kwargs_dict kwargs] []
              = Inr key"
    and nodir: "fs w (fullKeyName f_subDir key) \<noteq> Some Dir"
  shows "wrapper dump f_subDir f vargs kwargs0 (a, w) =
     (Inr (f_body f vargs kwargs),
      a\<lparr>cacheArgKey := Some key, cacheFullKey := Some (fullKeyName f_subDir key),
        cached := False\<rparr>,
      w\<lparr>fs := (fs w)(fullKeyName f_subDir key := None), calls := calls w + 1\<rparr>)"
proof -
  note plain = uniqueHash_key_plain [OF key]
  have idem: "fs w (fullKeyName f_subDir key) = None \<Longrightarrow>
              (fs w)(fullKeyName f_subDir key := None) = fs w"
    by (simp add: fun_upd_idem)
  show ?thesis
    using nodir unfolding wrapper_def
    by (simp add: mode key SubDir_delete_plain [OF plain] call_def Let_def idem
        split: option.splits node.splits)
qed

lemma wrapper_update:
  assumes mode: "caching_of kwargs0 = Inr (''update'', kwargs)"
    and key: "uniqueHash [PStr (f_module f), PStr (f_name f), PColl vargs, kwargs_dict kwargs] []
              = Inr key"
    and nodir: "fs w (fullKeyName f_subDir key) \<noteq> Some Dir"
    and dump: "dump (f_body f vargs kwargs) = Dumped"
  shows "wrapper dump f_subDir f vargs kwargs0 (a, w) =
     (Inr (f_body f vargs kwargs),
      a\<lparr>cacheArgKey := Some key, cacheFullKey := Some (fullKeyName f_subDir key),
        cached := False\<rparr>,
      w\<lparr>fs := (fs w)(fullKeyName f_subDir key \<mapsto> File (Pickled (f_body f vargs kwargs))),
        calls := calls w + 1\<rparr>)"
proof -
  note plain = uniqueHash_key_plain [OF key]
  show ?thesis
    using nodir unfolding wrapper_def
    by (simp add: mode key dump SubDir_delete_plain [OF plain] SubDir_write_plain [OF plain]
        SubDir_setitem_def call_def Let_def
        split: option.splits node.splits)
qed

lemma testns_key:
  "uniqueHash [PStr ''testns'', PStr ''f'', PColl [PInt 3], kwargs_dict []] [] =
   Inr ''525b2293522de82703cd825c3c4a82af''"
  by code_simp

lemma testns_full:
  "fullKeyName testns_dir ''525b2293522de82703cd825c3c4a82af'' =
   ''/cache/testns/f/525b2293522de82703cd825c3c4a82af.pck''"
  by (simp add: fullKeyName_def testns_dir_def)

lemma testns_f_key:
  "uniqueHash [PStr (f_module testns_f), PStr (f_name testns_f), PColl [PInt 3], kwargs_dict []] []
   = Inr ''525b2293522de82703cd825c3c4a82af''"
  by (simp add: testns_f_def testns_key)

lemma testns_f_3: "f_body testns_f [PInt 3] [] = PInt 6"
  by (simp add: testns_f_def)

lemma data_dump_int: "data_dump (PInt i) = Dumped"
  by (simp add: data_dump_def)

text \<open>
  C1. A call in the default mode, with hashable arguments, no entry stored under their
  key and a value of the body that can be pickled, followed by a second call with the
  same arguments: the first call returns the value of the body and is not a hit, the
  second returns the same value with \<^verbatim>\<open>cached = True\<close>, and the body has run once over
  the two calls.
\<close>

theorem memoization_second_call_hit:
  assumes "map_of kwargs ''caching'' = None"
    and "uniqueHash [PStr (f_module f), PStr (f_name f), PColl vargs, kwargs_dict kwargs] []
         = Inr key"
    and "fs w (fullKeyName f_subDir key) = None"
    and "dump (f_body f vargs kwargs) = Dumped"
  shows "case wrapper dump f_subDir f vargs kwargs (a, w) of
           (r1, a1, w1) \<Rightarrow>
             (case wrapper dump f_subDir f vargs kwargs (a1, w1) of
                (r2, a2, w2) \<Rightarrow>
                  r1 = Inr (f_body f vargs kwargs) \<and> \<not> cached a1 \<and> calls w1 = calls w + 1 \<and>
                  r2 = r1 \<and> cached a2 \<and> calls w2 = calls w + 1 \<and>
                  cacheArgKey a2 = Some key \<and> cacheFullKey a2 = Some (fullKeyName f_subDir key))"
proof -
  note yes = wrapper_yes [OF caching_of_default [OF assms(1)] assms(2)]
  show ?thesis by (simp add: yes assms(3,4) Let_def)
qed

theorem memoization_second_call_hit_witness:
  "map_of ([] :: (string \<times> pyval) list) ''caching'' = None \<and>
   uniqueHash [PStr (f_module testns_f), PStr (f_name testns_f), PColl [PInt 3], kwargs_dict []] []
     = Inr ''525b2293522de82703cd825c3c4a82af'' \<and>
   fs world0 (fullKeyName testns_dir ''525b2293522de82703cd825c3c4a82af'') = None \<and>
   data_dump (f_body testns_f [PInt 3] []) = Dumped \<and>
   (case wrapper data_dump testns_dir testns_f [PInt 3] [] (attrs0, world0) of
      (r1, a1, w1) \<Rightarrow>
        (case wrapper data_dump testns_dir testns_f [PInt 3] [] (a1, w1) of
           (r2, a2, w2) \<Rightarrow>
             r1 = Inr (PInt 6) \<and> \<not> cached a1 \<and> calls w1 = 1 \<and>
             r2 = Inr (PInt 6) \<and> cached a2 \<and> calls w2 = 1 \<and>
             cacheArgKey a2 = Some ''525b2293522de82703cd825c3c4a82af'' \<and>
             cacheFullKey a2 = Some ''/cache/testns/f/525b2293522de82703cd825c3c4a82af.pck''))"
proof -
  have h1: "map_of ([] :: (string \<times> pyval) list) ''caching'' = None" by simp
  have h3: "fs world0 (fullKeyName testns_dir ''525b2293522de82703cd825c3c4a82af'') = None"
    by (simp add: world0_def)
  have h4: "data_dump (f_body testns_f [PInt 3] []) = Dumped"
    by (simp add: testns_f_3 data_dump_int)
  have c: "calls world0 = 0" by (simp add: world0_def)
  show ?thesis
    using memoization_second_call_hit
            [where dump = data_dump and a = attrs0, OF h1 testns_f_key h3 h4]
    by (simp add: testns_f_key testns_f_3 data_dump_int c testns_full world0_def
        split: prod.splits)
qed

text \<open>
  When the value of the body cannot be pickled, the first call raises out of
  \<^verbatim>\<open>f_subDir.write\<close>, after the body has run, and leaves the file \<^verbatim>\<open>pickle.dump\<close> left.
\<close>

lemma unpicklable_result_raises:
  assumes "map_of kwargs ''caching'' = None"
    and "uniqueHash [PStr (f_module f), PStr (f_name f), PColl vargs, kwargs_dict kwargs] []
         = Inr key"
    and "fs w (fullKeyName f_subDir key) = None"
    and "dump (f_body f vargs kwargs) = Dump_raises c"
  shows "wrapper dump f_subDir f vargs kwargs (a, w) =
           (Inl PicklingError,
            a\<lparr>cacheArgKey := Some key, cacheFullKey := Some (fullKeyName f_subDir key),
              cached := False\<rparr>,
            w\<lparr>calls := calls w + 1, fs := (fs w)(fullKeyName f_subDir key \<mapsto> File c)\<rparr>)"
proof -
  note yes = wrapper_yes [OF caching_of_default [OF assms(1)] assms(2)]
  show ?thesis by (simp add: yes assms(3,4) Let_def)
qed

section \<open>A stored entry that cannot be read\<close>

text \<open>
  C3. The store holds, under the key of \<^verbatim>\<open>f(3)\<close>, a file on which \<^verbatim>\<open>pickle.load\<close> raises
  \<^verbatim>\<open>EOFError\<close> (an empty file). \<^verbatim>\<open>_read\<close> recovers as the claim says, deleting the file and
  logging the warning, but the wrapper reads a hit with \<^verbatim>\<open>f_subDir[key]\<close>, that is with
  \<^verbatim>\<open>throwOnError=True\<close>: the call ends in \<^verbatim>\<open>KeyError\<close>, the body of \<^verbatim>\<open>f\<close> has not run and
  \<^verbatim>\<open>cached\<close> is left \<^verbatim>\<open>True\<close>. The call does not behave as a miss.
\<close>

theorem corrupt_entry_raises_KeyError:
  "wrapper data_dump testns_dir testns_f [PInt 3] []
     (attrs0,
      \<lparr>fs = [''/cache/testns/f/525b2293522de82703cd825c3c4a82af.pck'' \<mapsto> File Truncated],
        warnings = [], calls = 0\<rparr>) =
   (Inl (KeyError ''525b2293522de82703cd825c3c4a82af''),
    \<lparr>cached = True, cacheArgKey = Some ''525b2293522de82703cd825c3c4a82af'',
      cacheFullKey = Some ''/cache/testns/f/525b2293522de82703cd825c3c4a82af.pck''\<rparr>,
    \<lparr>fs = Map.empty,
      warnings = [Cannot_read_file_deleted ''525b2293522de82703cd825c3c4a82af''
                    ''/cache/testns/f/525b2293522de82703cd825c3c4a82af.pck''],
      calls = 0\<rparr>)"
proof -
  have h1: "caching_of [] = Inr (''yes'', [])" by (simp add: caching_of_def)
  show ?thesis
    by (simp add: wrapper_yes [OF h1 testns_f_key] testns_full Let_def attrs0_def)
qed

text \<open>
  The same for every function, directory and store with such a file under the key.
\<close>

lemma corrupt_entry_deleted_then_KeyError:
  assumes "map_of kwargs ''caching'' = None"
    and "uniqueHash [PStr (f_module f), PStr (f_name f), PColl vargs, kwargs_dict kwargs] []
         = Inr key"
    and "fs w (fullKeyName f_subDir key) = Some (File Truncated)"
  shows "wrapper dump f_subDir f vargs kwargs (a, w) =
           (Inl (KeyError key),
            a\<lparr>cacheArgKey := Some key, cacheFullKey := Some (fullKeyName f_subDir key),
              cached := True\<rparr>,
            w\<lparr>fs := (fs w)(fullKeyName f_subDir key := None),
              warnings := warnings w @
                [Cannot_read_file_deleted key (fullKeyName f_subDir key)]\<rparr>)"
proof -
  note yes = wrapper_yes [OF caching_of_default [OF assms(1)] assms(2)]
  show ?thesis by (simp add: yes assms(3) Let_def)
qed

text \<open>
  Any other failure of \<^verbatim>\<open>pickle.load\<close> reaches the caller as it is, and the entry stays.
\<close>

lemma garbled_entry_propagates:
  assumes "map_of kwargs ''caching'' = None"
    and "uniqueHash [PStr (f_module f), PStr (f_name f), PColl vargs, kwargs_dict kwargs] []
         = Inr key"
    and "fs w (fullKeyName f_subDir key) = Some (File Garbled)"
  shows "wrapper dump f_subDir f vargs kwargs (a, w) =
           (Inl UnpicklingError,
            a\<lparr>cacheArgKey := Some key, cacheFullKey := Some (fullKeyName f_subDir key),
              cached := True\<rparr>, w)"
proof -
  note yes = wrapper_yes [OF caching_of_default [OF assms(1)] assms(2)]
  show ?thesis by (simp add: yes assms(3) Let_def)
qed

section \<open>The keyword that selects the mode\<close>

text \<open>
  C4, as stated, fails. With an entry stored under the key, the call
  \<^verbatim>\<open>f(3, caching='readonly')\<close> fails the verification of the wrapper; it does not return
  the stored value.
\<close>

theorem readonly_rejected_counterexample:
  "wrapper data_dump testns_dir testns_f [PInt 3] [(''caching'', PStr ''readonly'')]
     (attrs0,
      \<lparr>fs = [''/cache/testns/f/525b2293522de82703cd825c3c4a82af.pck'' \<mapsto> File (Pickled (PInt 6))],
        warnings = [], calls = 0\<rparr>) =
   (Inl (VerifyError ''caching: argument must be yes, no, clear, or update''),
    attrs0,
    \<lparr>fs = [''/cache/testns/f/525b2293522de82703cd825c3c4a82af.pck'' \<mapsto> File (Pickled (PInt 6))],
      warnings = [], calls = 0\<rparr>)"
  by (simp add: wrapper_def caching_of_def lower_def lower_char_def)

text \<open>
  C4, amended. The keyword \<^verbatim>\<open>caching\<close> takes the tokens \<^verbatim>\<open>yes\<close>, \<^verbatim>\<open>no\<close>, \<^verbatim>\<open>clear\<close> and
  \<^verbatim>\<open>update\<close>, compared in lower case, and no other string.
  \<^item> Any other string, among them the mode names \<^verbatim>\<open>on\<close>, \<^verbatim>\<open>gen\<close>, \<^verbatim>\<open>off\<close> and
    \<^verbatim>\<open>readonly\<close>, fails the verification before the key is computed: the body does not
    run, nothing is read, written or deleted, and the attributes of the wrapper stay as
    they were.
  \<^item> \<^verbatim>\<open>no\<close> calls the body and returns its value, without a key and without the store.
  \<^item> \<^verbatim>\<open>yes\<close>, with an entry stored under the key, returns the stored value with
    \<^verbatim>\<open>cached = True\<close>; the body does not run and nothing is written.
  \<^item> \<^verbatim>\<open>clear\<close> deletes the entry under the key, calls the body and returns its value
    without storing it.
  \<^item> \<^verbatim>\<open>update\<close> deletes the entry, calls the body, stores its value and returns it.
  The last three are for hashable arguments; \<^verbatim>\<open>clear\<close> and \<^verbatim>\<open>update\<close> for a path of the
  entry that is not a directory, \<^verbatim>\<open>update\<close> for a value that can be pickled.
\<close>

theorem caching_keyword_tokens:
  fixes given :: "(string \<times> pyval) list" and f :: pyfun and vargs :: "pyval list"
    and f_subDir :: SubDir and key :: string and a :: wrapper_attrs
  defines "kwargs \<equiv> filter (\<lambda>(k, v). k \<noteq> ''caching'') given"
  defines "v \<equiv> f_body f vargs kwargs"
  defines "full \<equiv> fullKeyName f_subDir key"
  defines "a1 \<equiv> a\<lparr>cacheArgKey := Some key, cacheFullKey := Some full, cached := False\<rparr>"
  defines "hashed \<equiv>
    uniqueHash [PStr (f_module f), PStr (f_name f), PColl vargs, kwargs_dict kwargs] [] = Inr key"
  assumes tok: "map_of given ''caching'' = Some (PStr s)"
  shows "(lower s \<notin> {''yes'', ''no'', ''clear'', ''update''} \<longrightarrow>
            wrapper dump f_subDir f vargs given (a, w) =
              (Inl (VerifyError ''caching: argument must be yes, no, clear, or update''), a, w)) \<and>
         (lower s = ''no'' \<longrightarrow>
            wrapper dump f_subDir f vargs given (a, w) =
              (Inr v, a\<lparr>cached := False, cacheArgKey := None, cacheFullKey := None\<rparr>,
               w\<lparr>calls := calls w + 1\<rparr>)) \<and>
         (lower s = ''yes'' \<and> hashed \<and> fs w full = Some (File (Pickled x)) \<longrightarrow>
            wrapper dump f_subDir f vargs given (a, w) = (Inr x, a1\<lparr>cached := True\<rparr>, w)) \<and>
         (lower s = ''clear'' \<and> hashed \<and> fs w full \<noteq> Some Dir \<longrightarrow>
            wrapper dump f_subDir f vargs given (a, w) =
              (Inr v, a1, w\<lparr>fs := (fs w)(full := None), calls := calls w + 1\<rparr>)) \<and>
         (lower s = ''update'' \<and> hashed \<and> fs w full \<noteq> Some Dir \<and> dump v = Dumped \<longrightarrow>
            wrapper dump f_subDir f vargs given (a, w) =
              (Inr v, a1, w\<lparr>fs := (fs w)(full \<mapsto> File (Pickled v)), calls := calls w + 1\<rparr>))"
proof (intro conjI impI)
  note mode = caching_of_token [OF tok, folded kwargs_def]
  show "wrapper dump f_subDir f vargs given (a, w) =
          (Inl (VerifyError ''caching: argument must be yes, no, clear, or update''), a, w)"
    if "lower s \<notin> {''yes'', ''no'', ''clear'', ''update''}"
    using that by (simp add: wrapper_def mode)
  show "wrapper dump f_subDir f vargs given (a, w) =
          (Inr v, a\<lparr>cached := False, cacheArgKey := None, cacheFullKey := None\<rparr>,
           w\<lparr>calls := calls w + 1\<rparr>)"
    if "lower s = ''no''"
    using that by (simp add: wrapper_def mode call_def v_def)
  show "wrapper dump f_subDir f vargs given (a, w) = (Inr x, a1\<lparr>cached := True\<rparr>, w)"
    if h: "lower s = ''yes'' \<and> hashed \<and> fs w full = Some (File (Pickled x))"
  proof -
    have m: "caching_of given = Inr (''yes'', kwargs)" using mode h by simp
    have k: "uniqueHash [PStr (f_module f), PStr (f_name f), PColl vargs, kwargs_dict kwargs] []
             = Inr key"
      using h by (simp add: hashed_def)
    show ?thesis
      using h by (simp add: wrapper_yes [OF m k] Let_def full_def a1_def)
  qed
  show "wrapper dump f_subDir f vargs given (a, w) =
          (Inr v, a1, w\<lparr>fs := (fs w)(full := None), calls := calls w + 1\<rparr>)"
    if h: "lower s = ''clear'' \<and> hashed \<and> fs w full \<noteq> Some Dir"
  proof -
    have m: "caching_of given = Inr (''clear'', kwargs)" using mode h by simp
    have k: "uniqueHash [PStr (f_module f), PStr (f_name f), PColl vargs, kwargs_dict kwargs] []
             = Inr key"
      using h by (simp add: hashed_def)
    have d: "fs w (fullKeyName f_subDir key) \<noteq> Some Dir" using h by (simp add: full_def)
    show ?thesis
      by (simp add: wrapper_clear [OF m k d] full_def a1_def v_def)
  qed
  show "wrapper dump f_subDir f vargs given (a, w) =
          (Inr v, a1, w\<lparr>fs := (fs w)(full \<mapsto> File (Pickled v)), calls := calls w + 1\<rparr>)"
    if h: "lower s = ''update'' \<and> hashed \<and> fs w full \<noteq> Some Dir \<and> dump v = Dumped"
  proof -
    have m: "caching_of given = Inr (''update'', kwargs)" using mode h by simp
    have k: "uniqueHash [PStr (f_module f), PStr (f_name f), PColl vargs, kwargs_dict kwargs] []
             = Inr key"
      using h by (simp add: hashed_def)
    have d: "fs w (fullKeyName f_subDir key) \<noteq> Some Dir" using h by (simp add: full_def)
    have p: "dump (f_body f vargs kwargs) = Dumped" using h by (simp add: v_def)
    show ?thesis
      by (simp add: wrapper_update [where dump = dump, OF m k d p] full_def a1_def v_def)
  qed
qed

theorem caching_keyword_tokens_witness:
  "lower ''readonly'' \<notin> {''yes'', ''no'', ''clear'', ''update''} \<and>
   lower ''on'' \<notin> {''yes'', ''no'', ''clear'', ''update''} \<and>
   lower ''gen'' \<notin> {''yes'', ''no'', ''clear'', ''update''} \<and>
   lower ''off'' \<notin> {''yes'', ''no'', ''clear'', ''update''} \<and>
   wrapper data_dump testns_dir testns_f [PInt 3] [(''caching'', PStr ''readonly'')]
       (attrs0, stale_world) =
     (Inl (VerifyError ''caching: argument must be yes, no, clear, or update''),
      attrs0, stale_world) \<and>
   wrapper data_dump testns_dir testns_f [PInt 3] [(''caching'', PStr ''Yes'')]
       (attrs0, stale_world) =
     (Inr (PInt 7),
      \<lparr>cached = True, cacheArgKey = Some ''525b2293522de82703cd825c3c4a82af'',
        cacheFullKey = Some ''/cache/testns/f/525b2293522de82703cd825c3c4a82af.pck''\<rparr>,
      stale_world) \<and>
   wrapper data_dump testns_dir testns_f [PInt 3] [(''caching'', PStr ''clear'')]
       (attrs0, stale_world) =
     (Inr (PInt 6),
      \<lparr>cached = False, cacheArgKey = Some ''525b2293522de82703cd825c3c4a82af'',
        cacheFullKey = Some ''/cache/testns/f/525b2293522de82703cd825c3c4a82af.pck''\<rparr>,
      \<lparr>fs = Map.empty, warnings = [], calls = 1\<rparr>) \<and>
   wrapper data_dump testns_dir testns_f [PInt 3] [(''caching'', PStr ''update'')]
       (attrs0, stale_world) =
     (Inr (PInt 6),
      \<lparr>cached = False, cacheArgKey = Some ''525b2293522de82703cd825c3c4a82af'',
        cacheFullKey = Some ''/cache/testns/f/525b2293522de82703cd825c3c4a82af.pck''\<rparr>,
      \<lparr>fs = [''/cache/testns/f/525b2293522de82703cd825c3c4a82af.pck'' \<mapsto> File (Pickled (PInt 6))],
        warnings = [], calls = 1\<rparr>)"
proof -
  have no: "lower ''readonly'' \<notin> {''yes'', ''no'', ''clear'', ''update''}"
    "lower ''on'' \<notin> {''yes'', ''no'', ''clear'', ''update''}"
    "lower ''gen'' \<notin> {''yes'', ''no'', ''clear'', ''update''}"
    "lower ''off'' \<notin> {''yes'', ''no'', ''clear'', ''update''}"
    by (simp_all add: lower_def lower_char_def)
  have low: "lower ''Yes'' = ''yes''" "lower ''clear'' = ''clear''" "lower ''update'' = ''update''"
    by code_simp+
  have st: "fs stale_world ''/cache/testns/f/525b2293522de82703cd825c3c4a82af.pck'' =
              Some (File (Pickled (PInt 7)))"
    "calls stale_world = 0" "warnings stale_world = []"
    by (simp_all add: stale_world_def)
  note T = caching_keyword_tokens
             [where dump = data_dump and f_subDir = testns_dir and f = testns_f
                and vargs = "[PInt 3]" and a = attrs0 and w = stale_world
                and key = "''525b2293522de82703cd825c3c4a82af''" and x = "PInt 7"]
  have r: "wrapper data_dump testns_dir testns_f [PInt 3] [(''caching'', PStr ''readonly'')]
             (attrs0, stale_world) =
           (Inl (VerifyError ''caching: argument must be yes, no, clear, or update''),
            attrs0, stale_world)"
    using T [where s = "''readonly''" and given = "[(''caching'', PStr ''readonly'')]"] no(1)
    by simp
  have y: "wrapper data_dump testns_dir testns_f [PInt 3] [(''caching'', PStr ''Yes'')]
             (attrs0, stale_world) =
           (Inr (PInt 7),
            \<lparr>cached = True, cacheArgKey = Some ''525b2293522de82703cd825c3c4a82af'',
              cacheFullKey = Some ''/cache/testns/f/525b2293522de82703cd825c3c4a82af.pck''\<rparr>,
            stale_world)"
    using T [where s = "''Yes''" and given = "[(''caching'', PStr ''Yes'')]"]
    by (simp add: low testns_f_key testns_full st attrs0_def)
  have c: "wrapper data_dump testns_dir testns_f [PInt 3] [(''caching'', PStr ''clear'')]
             (attrs0, stale_world) =
           (Inr (PInt 6),
            \<lparr>cached = False, cacheArgKey = Some ''525b2293522de82703cd825c3c4a82af'',
              cacheFullKey = Some ''/cache/testns/f/525b2293522de82703cd825c3c4a82af.pck''\<rparr>,
            \<lparr>fs = Map.empty, warnings = [], calls = 1\<rparr>)"
    using T [where s = "''clear''" and given = "[(''caching'', PStr ''clear'')]"]
    by (simp add: low testns_f_key testns_full testns_f_3 st attrs0_def)
       (simp add: stale_world_def)
  have u: "wrapper data_dump testns_dir testns_f [PInt 3] [(''caching'', PStr ''update'')]
             (attrs0, stale_world) =
           (Inr (PInt 6),
            \<lparr>cached = False, cacheArgKey = Some ''525b2293522de82703cd825c3c4a82af'',
              cacheFullKey = Some ''/cache/testns/f/525b2293522de82703cd825c3c4a82af.pck''\<rparr>,
            \<lparr>fs = [''/cache/testns/f/525b2293522de82703cd825c3c4a82af.pck''
                    \<mapsto> File (Pickled (PInt 6))],
              warnings = [], calls = 1\<rparr>)"
    using T [where s = "''update''" and given = "[(''caching'', PStr ''update'')]"]
    by (simp add: low testns_f_key testns_full testns_f_3 data_dump_int st attrs0_def)
       (simp add: stale_world_def)
  show ?thesis using no r y c u by simp
qed

text \<open>
  C5. A call in the mode without caching, \<^verbatim>\<open>caching='no'\<close> in any letter case: the value of
  the body (called without the keyword \<^verbatim>\<open>caching\<close>) is returned, \<^verbatim>\<open>cached\<close> is \<^verbatim>\<open>False\<close>,
  \<^verbatim>\<open>cacheArgKey\<close> and \<^verbatim>\<open>cacheFullKey\<close> are \<^verbatim>\<open>None\<close>, the body has run once, and the file
  system and the log are as before the call.
\<close>

theorem caching_no_bypasses_store:
  assumes "map_of kwargs ''caching'' = Some (PStr s)" and "lower s = ''no''"
  shows "case wrapper dump f_subDir f vargs kwargs (a, w) of
           (r, a', w') \<Rightarrow>
             r = Inr (f_body f vargs (filter (\<lambda>(k, v). k \<noteq> ''caching'') kwargs)) \<and>
             cached a' = False \<and> cacheArgKey a' = None \<and> cacheFullKey a' = None \<and>
             fs w' = fs w \<and> warnings w' = warnings w \<and> calls w' = calls w + 1"
  using assms by (simp add: wrapper_def caching_of_def call_def)

theorem caching_no_bypasses_store_witness:
  "map_of [(''caching'', PStr ''No'')] ''caching'' = Some (PStr ''No'') \<and> lower ''No'' = ''no'' \<and>
   (case wrapper data_dump testns_dir testns_f [PInt 3] [(''caching'', PStr ''No'')]
           (\<lparr>cached = True, cacheArgKey = Some ''525b2293522de82703cd825c3c4a82af'',
              cacheFullKey = Some ''/cache/testns/f/525b2293522de82703cd825c3c4a82af.pck''\<rparr>,
            \<lparr>fs = [''/cache/testns/f/525b2293522de82703cd825c3c4a82af.pck'' \<mapsto> File (Pickled (PInt 7))],
              warnings = [], calls = 0\<rparr>) of
      (r, a', w') \<Rightarrow>
        r = Inr (PInt 6) \<and> cached a' = False \<and> cacheArgKey a' = None \<and> cacheFullKey a' = None \<and>
        fs w' = [''/cache/testns/f/525b2293522de82703cd825c3c4a82af.pck'' \<mapsto> File (Pickled (PInt 7))] \<and>
        warnings w' = [] \<and> calls w' = 1)"
proof -
  have h1: "map_of [(''caching'', PStr ''No'')] ''caching'' = Some (PStr ''No'')" by simp
  have h2: "lower ''No'' = ''no''" by code_simp
  show ?thesis
    using caching_no_bypasses_store
            [OF h1 h2, where dump = data_dump and f_subDir = testns_dir and f = testns_f and vargs = "[PInt 3]"
               and a = "\<lparr>cached = True, cacheArgKey = Some ''525b2293522de82703cd825c3c4a82af'',
                         cacheFullKey =
                           Some ''/cache/testns/f/525b2293522de82703cd825c3c4a82af.pck''\<rparr>"
               and w = "\<lparr>fs = [''/cache/testns/f/525b2293522de82703cd825c3c4a82af.pck''
                                 \<mapsto> File (Pickled (PInt 7))],
                         warnings = [], calls = 0\<rparr>"] h2
    by (simp add: testns_f_3 split: prod.splits)
qed

section \<open>The identity of the function in the key\<close>

text \<open>
  C6. The key does not always hold the identity of the function: the wrapper passes
  \<^verbatim>\<open>f.__module__\<close> and \<^verbatim>\<open>f.__name__\<close> as elements of the argument tuple, where the hasher
  skips every string that starts with an underscore. Two functions of one module whose
  names start with an underscore get the same key for the same arguments. In the
  witness the two names share their first 64 characters, so that both functions use the
  same directory, and the second function returns the value cached for the first.
\<close>

theorem wrapper_key_omits_underscore_names:
  assumes "take 1 (f_name f) = ''_''" and "take 1 (f_name g) = ''_''"
    and "f_module f = f_module g"
  shows "uniqueHash [PStr (f_module f), PStr (f_name f), PColl vargs, kwargs_dict kwargs] [] =
         uniqueHash [PStr (f_module g), PStr (f_name g), PColl vargs, kwargs_dict kwargs] []"
  using assms by (simp add: uniqueHash_def uniqueHashExt_def skipped_def)

theorem wrapper_key_omits_underscore_names_witness:
  "take 1 (f_name private_a) = ''_'' \<and> take 1 (f_name private_b) = ''_'' \<and>
   f_module private_a = f_module private_b \<and> f_name private_a \<noteq> f_name private_b \<and>
   cache_dirs private_a None None = cache_dirs private_b None None \<and>
   uniqueHash [PStr (f_module private_a), PStr (f_name private_a), PColl [], kwargs_dict []] [] =
     uniqueHash [PStr (f_module private_b), PStr (f_name private_b), PColl [], kwargs_dict []] [] \<and>
   (case wrapper data_dump private_dir private_a [] [] (attrs0, world0) of
      (r1, a1, w1) \<Rightarrow>
        (case wrapper data_dump private_dir private_b [] [] (attrs0, w1) of
           (r2, a2, w2) \<Rightarrow>
             r1 = Inr (PInt 1) \<and> r2 = Inr (PInt 1) \<and> cached a2 \<and> calls w2 = 1 \<and>
             f_body private_b [] [] = PInt 2))"
proof -
  have h1: "take 1 (f_name private_a) = ''_''" and h2: "take 1 (f_name private_b) = ''_''"
    and h3: "f_module private_a = f_module private_b"
    by (simp_all add: private_a_def private_b_def)
  have n: "f_name private_a \<noteq> f_name private_b"
    by (simp add: private_a_def private_b_def)
  have d: "cache_dirs private_a None None = cache_dirs private_b None None"
    by (simp add: cache_dirs_def private_a_def private_b_def)
  note same = wrapper_key_omits_underscore_names
                [OF h1 h2 h3, where vargs = "[]" and kwargs = "[]"]
  have "\<exists>key. uniqueHash
          [PStr (f_module private_a), PStr (f_name private_a), PColl [], kwargs_dict []] []
        = Inr key"
    by (simp add: uniqueHash_def uniqueHashExt_def skipped_def private_a_def kwargs_dict_def
        sorted_keys_def)
  then obtain key where ka:
    "uniqueHash [PStr (f_module private_a), PStr (f_name private_a), PColl [], kwargs_dict []] []
     = Inr key" ..
  then have kb:
    "uniqueHash [PStr (f_module private_b), PStr (f_name private_b), PColl [], kwargs_dict []] []
     = Inr key"
    using same by simp
  have y: "caching_of [] = Inr (''yes'', [])" by (simp add: caching_of_def)
  have e: "(case wrapper data_dump private_dir private_a [] [] (attrs0, world0) of
      (r1, a1, w1) \<Rightarrow>
        (case wrapper data_dump private_dir private_b [] [] (attrs0, w1) of
           (r2, a2, w2) \<Rightarrow>
             r1 = Inr (PInt 1) \<and> r2 = Inr (PInt 1) \<and> cached a2 \<and> calls w2 = 1 \<and>
             f_body private_b [] [] = PInt 2))"
    by (simp add: wrapper_yes [OF y ka] wrapper_yes [OF y kb] Let_def world0_def)
       (simp add: private_a_def private_b_def data_dump_int)
  show ?thesis using h1 h2 h3 n d same e by simp
qed

section \<open>The length of the truncated digest\<close>

lemma length_keccak_round: "length (keccak_round A r) = 25"
  by (simp add: keccak_round_def keccak_chi_def Let_def)

lemma length_foldl_keccak_round:
  "length A = 25 \<Longrightarrow> length (foldl keccak_round A rs) = 25"
  by (induction rs arbitrary: A) (simp_all add: length_keccak_round)

lemma length_keccak_f: "length (keccak_f A) = 25"
proof -
  have "[0..<24] = 0 # [1..<24]" by (simp add: upt_conv_Cons)
  then show ?thesis
    by (simp add: keccak_f_def length_foldl_keccak_round length_keccak_round)
qed

lemma length_concat_le_bytes:
  "length (concat (map (\<lambda>w. le_bytes 8 w) (A :: 64 word list))) = 8 * length A"
  by (induction A) (simp_all add: length_le_bytes)

lemma length_keccak_out: "length A = 25 \<Longrightarrow> length (keccak_out A) = shake_rate"
  by (simp add: keccak_out_def length_concat_le_bytes shake_rate_def)

lemma length_keccak_squeeze:
  "length A = 25 \<Longrightarrow> length (keccak_squeeze k A) = k * shake_rate"
  by (induction k arbitrary: A) (simp_all add: length_keccak_out length_keccak_f)

lemma length_foldl_keccak_absorb:
  "length A = 25 \<Longrightarrow> length (foldl keccak_absorb A blks) = 25"
  by (induction blks arbitrary: A) (simp_all add: keccak_absorb_def length_keccak_f)

lemma length_shake_128_digest: "length (shake_128_digest bs n) = n"
proof -
  define A where
    "A = foldl keccak_absorb (replicate 25 0)
           (chunks (length (shake_pad bs) div shake_rate) shake_rate (shake_pad bs))"
  have "length A = 25"
    unfolding A_def by (rule length_foldl_keccak_absorb) simp
  then have sq: "length (keccak_squeeze (Suc (n div shake_rate)) A) =
                 Suc (n div shake_rate) * shake_rate"
    by (rule length_keccak_squeeze)
  have "n < Suc (n div shake_rate) * shake_rate"
    using dividend_less_div_times [of shake_rate n] by (simp add: shake_rate_def)
  then have "length (take n (keccak_squeeze (Suc (n div shake_rate)) A)) = n"
    by (simp only: length_take sq min_def) simp
  then show ?thesis
    unfolding shake_128_digest_def Let_def A_def .
qed

lemma length_shake_128_hexdigest: "length (shake_128_hexdigest bs n) = 2 * n"
  by (simp add: shake_128_hexdigest_def length_hex_bytes length_shake_128_digest)

lemma length_uniqueHashExt:
  assumes "uniqueHashExt (Some n) pf args kwargs = Inr h"
  shows "0 \<le> n div 2" and "int (length h) = 2 * (n div 2)"
  using assms
  by (auto simp: uniqueHashExt_def length_shake_128_hexdigest split: sum.splits if_splits)

text \<open>
  C7. \<^verbatim>\<open>hexdigest(length//2)\<close> has \<open>2 * (length div 2)\<close> characters: for the odd length
  33 the hash has 32 characters, as for the length 32; a negative length ends in an
  exception.
\<close>

theorem uniqueHashExt_odd_length:
  "(case uniqueHashExt (Some 33) False [PInt 1] [] of Inr h \<Rightarrow> length h = 32 | Inl e \<Rightarrow> False) \<and>
   (case uniqueHashExt (Some 32) False [PInt 1] [] of Inr h \<Rightarrow> length h = 32 | Inl e \<Rightarrow> False) \<and>
   uniqueHashExt (Some (- 1)) False [PInt 1] [] = Inl NegativeLengthError"
  by (simp add: uniqueHashExt_def kwargs_dict_def sorted_keys_def skipped_def
      length_shake_128_hexdigest)

end
